theory Spec2Isabelle
  imports Complex_Main "HOL-Library.Log_Nat"
begin

section \<open>JavaScript idioms\<close>

text \<open>\<^verbatim>\<open>detail || fallback\<close>: a missing or empty detail gives the fallback text.\<close>

definition detail_or :: "string option \<Rightarrow> string \<Rightarrow> string" where
  "detail_or detail fallback =
     (case detail of None \<Rightarrow> fallback | Some m \<Rightarrow> if m = [] then fallback else m)"

text \<open>\<^verbatim>\<open>x || 0\<close> on a number.\<close>

definition or_zero :: "'a::zero \<Rightarrow> 'a" where
  "or_zero x = (if x = 0 then 0 else x)"

section \<open>JavaScript numbers\<close>

text \<open>A JavaScript number is an IEEE 754 binary64 value: a finite value, which is a
  rational, one of the two infinities, or NaN. The sign of a zero is not kept: the code
  modelled here adds, subtracts, multiplies and compares numbers and divides them by
  positive literals only, and none of these tells the two zeros apart.\<close>

datatype number = Fin rat | PInf | NInf | NaN

text \<open>\<open>pow2 e\<close> is \<open>2\<close> to the power \<open>e\<close>, and \<open>ilog2 a\<close> the exponent of the binade
  of a positive \<open>a\<close>: the \<open>e\<close> with \<open>pow2 e \<le> a < pow2 (e + 1)\<close>.\<close>

definition pow2 :: "int \<Rightarrow> rat" where
  "pow2 e = (if 0 \<le> e then 2 ^ nat e else 1 / 2 ^ nat (- e))"

definition ilog2 :: "rat \<Rightarrow> int" where
  "ilog2 a = (if 1 \<le> a then bitlen \<lfloor>a\<rfloor> - 1 else - bitlen (\<lceil>1 / a\<rceil> - 1))"

definition round_half_even :: "rat \<Rightarrow> int" where
  "round_half_even x =
     (let f = \<lfloor>x\<rfloor>; r = x - of_int f
      in if r < 1 / 2 then f else if 1 / 2 < r then f + 1 else if even f then f else f + 1)"

text \<open>Rounding of an exact result to binary64 (round to nearest, ties to even): 53
  significant bits, exponents from \<open>-1022\<close> (below it the spacing stays
  \<open>pow2 (-1074)\<close>) to \<open>1023\<close> (above it the result is infinite).\<close>

definition rnd :: "rat \<Rightarrow> number" where
  "rnd x =
     (if x = 0 then Fin 0
      else
        (let a = \<bar>x\<bar>;
             e = max (ilog2 a) (- 1022);
             q = pow2 (e - 52);
             n = round_half_even (a / q)
         in if 1024 \<le> e \<or> (e = 1023 \<and> n = 9007199254740992)
            then (if x < 0 then NInf else PInf)
            else Fin (if x < 0 then - (of_int n * q) else of_int n * q)))"

text \<open>An integer as a number, and a number read from the decimal text of a JSON
  response.\<close>

definition num :: "int \<Rightarrow> number" where
  "num i = rnd (of_int i)"

definition json_number :: "rat \<Rightarrow> number" where
  "json_number decimal = rnd decimal"

text \<open>\<^verbatim>\<open>x + y\<close>, \<^verbatim>\<open>x - y\<close>, \<^verbatim>\<open>x * y\<close>, \<^verbatim>\<open>x / c\<close> for a literal \<open>c > 0\<close>, and
  \<^verbatim>\<open>x > y\<close>.\<close>

definition dadd :: "number \<Rightarrow> number \<Rightarrow> number" where
  "dadd x y =
     (case (x, y) of
        (Fin a, Fin b) \<Rightarrow> rnd (a + b)
      | (NaN, _) \<Rightarrow> NaN
      | (_, NaN) \<Rightarrow> NaN
      | (PInf, NInf) \<Rightarrow> NaN
      | (NInf, PInf) \<Rightarrow> NaN
      | (PInf, _) \<Rightarrow> PInf
      | (_, PInf) \<Rightarrow> PInf
      | (NInf, _) \<Rightarrow> NInf
      | (_, NInf) \<Rightarrow> NInf)"

definition dneg :: "number \<Rightarrow> number" where
  "dneg x = (case x of Fin a \<Rightarrow> Fin (- a) | PInf \<Rightarrow> NInf | NInf \<Rightarrow> PInf | NaN \<Rightarrow> NaN)"

definition dsub :: "number \<Rightarrow> number \<Rightarrow> number" where
  "dsub x y = dadd x (dneg y)"

definition dmul :: "number \<Rightarrow> number \<Rightarrow> number" where
  "dmul x y =
     (case (x, y) of
        (Fin a, Fin b) \<Rightarrow> rnd (a * b)
      | (NaN, _) \<Rightarrow> NaN
      | (_, NaN) \<Rightarrow> NaN
      | (Fin a, PInf) \<Rightarrow> (if a = 0 then NaN else if 0 < a then PInf else NInf)
      | (Fin a, NInf) \<Rightarrow> (if a = 0 then NaN else if 0 < a then NInf else PInf)
      | (PInf, Fin b) \<Rightarrow> (if b = 0 then NaN else if 0 < b then PInf else NInf)
      | (NInf, Fin b) \<Rightarrow> (if b = 0 then NaN else if 0 < b then NInf else PInf)
      | (PInf, PInf) \<Rightarrow> PInf
      | (NInf, NInf) \<Rightarrow> PInf
      | (PInf, NInf) \<Rightarrow> NInf
      | (NInf, PInf) \<Rightarrow> NInf)"

definition ddiv_pos :: "number \<Rightarrow> rat \<Rightarrow> number" where
  "ddiv_pos x c = (case x of Fin a \<Rightarrow> rnd (a / c) | PInf \<Rightarrow> PInf | NInf \<Rightarrow> NInf | NaN \<Rightarrow> NaN)"

definition gt :: "number \<Rightarrow> number \<Rightarrow> bool" where
  "gt x y =
     (case (x, y) of
        (Fin a, Fin b) \<Rightarrow> b < a
      | (NaN, _) \<Rightarrow> False
      | (_, NaN) \<Rightarrow> False
      | (PInf, PInf) \<Rightarrow> False
      | (PInf, _) \<Rightarrow> True
      | (_, PInf) \<Rightarrow> False
      | (NInf, _) \<Rightarrow> False
      | (_, NInf) \<Rightarrow> True)"

text \<open>\<^verbatim>\<open>x || 0\<close> on a number: zero and NaN are falsy.\<close>

definition number_or_zero :: "number \<Rightarrow> number" where
  "number_or_zero x = (case x of Fin a \<Rightarrow> Fin a | NaN \<Rightarrow> Fin 0 | PInf \<Rightarrow> PInf | NInf \<Rightarrow> NInf)"

section \<open>Data model (frontend/src/types)\<close>

datatype UserRole = Employee | Admin

record User =
  user_id :: int
  email :: string
  role :: UserRole
  is_active :: bool

section \<open>Browser local storage used by the API service\<close>

text \<open>The two keys the API service reads and writes: \<^verbatim>\<open>access_token\<close> and
  \<^verbatim>\<open>refresh_token\<close>. A removed or never written key is \<open>None\<close>.\<close>

record LocalStorage =
  access_token :: "string option"
  refresh_token :: "string option"

definition api_logout :: "LocalStorage \<Rightarrow> LocalStorage" where
  "api_logout ls = ls\<lparr>access_token := None, refresh_token := None\<rparr>"

section \<open>Authentication store (frontend/src/store/authStore.ts)\<close>

record AuthState =
  user :: "User option"
  isAuthenticated :: bool
  isLoading :: bool
  error :: "string option"

definition auth_initial :: AuthState where
  "auth_initial = \<lparr>user = None, isAuthenticated = False, isLoading = False, error = None\<rparr>"

text \<open>Outcome of \<^verbatim>\<open>await api.login(email, password)\<close>: the response data (user, access
  token, refresh token), or the rejection with the optional
  \<^verbatim>\<open>error.response?.data?.detail\<close>. The request goes through the API client, whose
  response interceptor may refresh or remove the stored tokens before it rejects: a
  rejection carries the local storage as the client left it.\<close>

datatype login_outcome =
  LoginOk User string string
  | LoginRejected "string option" LocalStorage

text \<open>Outcome of \<^verbatim>\<open>await api.getCurrentUser()\<close>: the user, with the local storage as the
  client left it (the tokens may have been refreshed on the way), or a rejection.\<close>

datatype me_outcome = MeOk User LocalStorage | MeRejected

text \<open>Every \<^verbatim>\<open>set({...})\<close> of the store is one definition: it merges the given
  fields into the current state.\<close>

definition login_set_pending :: "AuthState \<Rightarrow> AuthState" where
  "login_set_pending s = s\<lparr>isLoading := True, error := None\<rparr>"

definition login_set_result :: "login_outcome \<Rightarrow> AuthState \<Rightarrow> AuthState" where
  "login_set_result out s =
     (case out of
        LoginOk u tok rtok \<Rightarrow> s\<lparr>user := Some u, isAuthenticated := True, isLoading := False\<rparr>
      | LoginRejected detail left \<Rightarrow>
          s\<lparr>error := Some (detail_or detail ''Login failed''), isLoading := False\<rparr>)"

text \<open>\<^verbatim>\<open>api.login\<close> stores both tokens when the request succeeds; otherwise the storage
  is as the client left it.\<close>

definition api_login_storage :: "login_outcome \<Rightarrow> LocalStorage \<Rightarrow> LocalStorage" where
  "api_login_storage out ls =
     (case out of
        LoginOk u tok rtok \<Rightarrow> ls\<lparr>access_token := Some tok, refresh_token := Some rtok\<rparr>
      | LoginRejected detail left \<Rightarrow> left)"

text \<open>\<^verbatim>\<open>login\<close>: the new store, the new local storage, and whether the promise
  rejects (the handler rethrows the error).\<close>

definition login :: "login_outcome \<Rightarrow> AuthState \<times> LocalStorage \<Rightarrow> (AuthState \<times> LocalStorage) \<times> bool" where
  "login out w =
     (case w of (s, ls) \<Rightarrow>
        ((login_set_result out (login_set_pending s), api_login_storage out ls),
         (case out of LoginOk u tok rtok \<Rightarrow> False | LoginRejected detail left \<Rightarrow> True)))"

definition logout_set :: "AuthState \<Rightarrow> AuthState" where
  "logout_set s = s\<lparr>user := None, isAuthenticated := False\<rparr>"

definition logout :: "AuthState \<times> LocalStorage \<Rightarrow> AuthState \<times> LocalStorage" where
  "logout w = (case w of (s, ls) \<Rightarrow> (logout_set s, api_logout ls))"

definition checkAuth_set_no_token :: "AuthState \<Rightarrow> AuthState" where
  "checkAuth_set_no_token s = s\<lparr>isAuthenticated := False, user := None\<rparr>"

definition checkAuth_set_pending :: "AuthState \<Rightarrow> AuthState" where
  "checkAuth_set_pending s = s\<lparr>isLoading := True\<rparr>"

definition checkAuth_set_result :: "me_outcome \<Rightarrow> AuthState \<Rightarrow> AuthState" where
  "checkAuth_set_result out s =
     (case out of
        MeOk u left \<Rightarrow> s\<lparr>user := Some u, isAuthenticated := True, isLoading := False\<rparr>
      | MeRejected \<Rightarrow> s\<lparr>user := None, isAuthenticated := False, isLoading := False\<rparr>)"

definition checkAuth :: "me_outcome \<Rightarrow> AuthState \<times> LocalStorage \<Rightarrow> AuthState \<times> LocalStorage" where
  "checkAuth out w =
     (case w of (s, ls) \<Rightarrow>
        (case access_token ls of
           None \<Rightarrow> (checkAuth_set_no_token s, ls)
         | Some token \<Rightarrow>
             (if token = [] then (checkAuth_set_no_token s, ls)
              else (checkAuth_set_result out (checkAuth_set_pending s),
                    (case out of MeOk u left \<Rightarrow> left | MeRejected \<Rightarrow> api_logout ls)))))"

definition clearError :: "AuthState \<Rightarrow> AuthState" where
  "clearError s = s\<lparr>error := None\<rparr>"

text \<open>The \<^verbatim>\<open>persist\<close> middleware saves \<^verbatim>\<open>partialize(state)\<close>, the pair
  \<^verbatim>\<open>(user, isAuthenticated)\<close>, under \<^verbatim>\<open>auth-storage\<close> after every change, and a
  newly created store starts from the initial state overlaid with the saved pair.\<close>

definition auth_partialize :: "AuthState \<Rightarrow> User option \<times> bool" where
  "auth_partialize s = (user s, isAuthenticated s)"

definition auth_rehydrate :: "User option \<times> bool \<Rightarrow> AuthState" where
  "auth_rehydrate p = auth_initial\<lparr>user := fst p, isAuthenticated := snd p\<rparr>"

text \<open>The states the store can be in: the initial one, and any state after one more
  \<^verbatim>\<open>set\<close> call of an operation (so operations may interleave between their awaits),
  or after a reload of the page.\<close>

inductive auth_reachable :: "AuthState \<Rightarrow> bool" where
  r_init: "auth_reachable auth_initial"
| r_login_pending: "auth_reachable s \<Longrightarrow> auth_reachable (login_set_pending s)"
| r_login_result: "auth_reachable s \<Longrightarrow> auth_reachable (login_set_result out s)"
| r_logout: "auth_reachable s \<Longrightarrow> auth_reachable (logout_set s)"
| r_check_no_token: "auth_reachable s \<Longrightarrow> auth_reachable (checkAuth_set_no_token s)"
| r_check_pending: "auth_reachable s \<Longrightarrow> auth_reachable (checkAuth_set_pending s)"
| r_check_result: "auth_reachable s \<Longrightarrow> auth_reachable (checkAuth_set_result mo s)"
| r_clearError: "auth_reachable s \<Longrightarrow> auth_reachable (clearError s)"
| r_reload: "auth_reachable s \<Longrightarrow> auth_reachable (auth_rehydrate (auth_partialize s))"

definition auth_inv :: "AuthState \<Rightarrow> bool" where
  "auth_inv s = (isAuthenticated s \<longrightarrow> user s \<noteq> None)"

definition example_user :: User where
  "example_user = \<lparr>user_id = 1, email = ''a@b.lv'', role = Employee, is_active = True\<rparr>"

section \<open>Routing (frontend/src/App.tsx)\<close>

datatype page =
  DashboardPage | CalendarPage | StatsPage | OfficePage | ProfilePage
  | AdminDashboard | EmployeesPage | AdminStatsPage | DailyOverviewPage
  | AdminCalendarPage | SettingsPage | ChangeRequestsPage

text \<open>What a render shows: the loading spinner, a \<^verbatim>\<open><Navigate to=...>\<close>, the login
  page, a page inside the main layout, or nothing when no route matches.\<close>

datatype view = Spinner | NavigateTo string | ShowLogin | Show page | NoMatch

text \<open>The element of a child route of \<^verbatim>\<open>/\<close>: a page, a redirect, or a page wrapped in
  \<^verbatim>\<open><AdminRoute>\<close>.\<close>

datatype route_element = PageE page | NavigateE string | AdminE page

definition child_routes :: "(string \<times> route_element) list" where
  "child_routes =
     [(''/'', PageE DashboardPage),
      (''/calendar'', PageE CalendarPage),
      (''/stats'', PageE StatsPage),
      (''/office'', PageE OfficePage),
      (''/profile'', PageE ProfilePage),
      (''/change-requests'', NavigateE ''/calendar''),
      (''/admin'', AdminE AdminDashboard),
      (''/admin/employees'', AdminE EmployeesPage),
      (''/admin/stats'', AdminE AdminStatsPage),
      (''/admin/daily'', AdminE DailyOverviewPage),
      (''/admin/calendar'', AdminE AdminCalendarPage),
      (''/admin/settings'', AdminE SettingsPage),
      (''/admin/change-requests'', AdminE ChangeRequestsPage)]"

definition PrivateRoute :: "AuthState \<Rightarrow> view \<Rightarrow> view" where
  "PrivateRoute s children =
     (if isLoading s then Spinner
      else if isAuthenticated s then children else NavigateTo ''/login'')"

text \<open>\<^verbatim>\<open>user?.role !== 'admin'\<close> is true when there is no user.\<close>

definition AdminRoute :: "AuthState \<Rightarrow> view \<Rightarrow> view" where
  "AdminRoute s children =
     (if isLoading s then Spinner
      else if \<not> isAuthenticated s then NavigateTo ''/login''
      else if (case user s of None \<Rightarrow> True | Some u \<Rightarrow> role u \<noteq> Admin) then NavigateTo ''/''
      else children)"

text \<open>The element a child route renders in the layout's outlet.\<close>

definition render_element :: "AuthState \<Rightarrow> route_element \<Rightarrow> view" where
  "render_element s e =
     (case e of
        PageE p \<Rightarrow> Show p
      | NavigateE target \<Rightarrow> NavigateTo target
      | AdminE p \<Rightarrow> AdminRoute s (Show p))"

text \<open>The router matches the (decoded) pathname of the location against the full path of
  a route without regard to the case of the letters A to Z and to slashes at the end of
  the pathname: \<open>match_key\<close> is the pathname in lower case without its final slashes.\<close>

definition to_lower :: "char \<Rightarrow> char" where
  "to_lower c =
     (let n = (of_char c :: nat) in if 65 \<le> n \<and> n \<le> 90 then char_of (n + 32) else c)"

definition match_key :: "string \<Rightarrow> string" where
  "match_key pathname =
     (let key = rev (dropWhile (\<lambda>c. c = CHR ''/'') (rev (map to_lower pathname)))
      in if key = [] then ''/'' else key)"

text \<open>\<^verbatim>\<open><Routes>\<close>: the login route, or a child of \<^verbatim>\<open>/\<close>, whose parent element is
  \<^verbatim>\<open><PrivateRoute><MainLayout/></PrivateRoute>\<close>; the layout renders the child in its
  outlet.\<close>

definition Routes :: "AuthState \<Rightarrow> string \<Rightarrow> view" where
  "Routes s pathname =
     (let key = match_key pathname
      in if key = ''/login'' then ShowLogin
         else (case map_of child_routes key of
                 None \<Rightarrow> NoMatch
               | Some e \<Rightarrow> PrivateRoute s (render_element s e)))"

text \<open>\<^verbatim>\<open>App\<close> returns the spinner instead of the router while the store is loading.\<close>

definition App :: "AuthState \<Rightarrow> string \<Rightarrow> view" where
  "App s pathname = (if isLoading s then Spinner else Routes s pathname)"

text \<open>The pages that are the child of an \<^verbatim>\<open><AdminRoute>\<close>.\<close>

definition admin_page :: "page \<Rightarrow> bool" where
  "admin_page p = (\<exists>r \<in> set child_routes. snd r = AdminE p)"

section \<open>Calendar data (frontend/src/types)\<close>

text \<open>A calendar day is its day number, counted from 1970-01-01 (a Thursday). The
  \<^verbatim>\<open>YYYY-MM-DD\<close> strings the client uses as keys name days one to one, so the day
  number stands for the string.\<close>

type_synonym date = int

datatype DayType = Workday | Weekend | Holiday

record CalendarDay =
  cd_date :: date
  day_type :: DayType
  is_working_day :: bool

datatype StatusType = Normal | Sick | Vacation | Excused

record DayStatus =
  ds_date :: date
  status :: StatusType

datatype WorkplaceType = Office | Remote

text \<open>A time of day: \<^verbatim>\<open>HH:mm:ss\<close> in a time entry, \<^verbatim>\<open>hour()\<close> and \<^verbatim>\<open>minute()\<close>
  of a form's time picker.\<close>

record Clock =
  hh :: int
  mm :: int
  ss :: int

text \<open>The server's \<open>duration_hours\<close> and \<open>total_hours\<close> are numbers as parsed from the
  response; hours and minutes of a time of day, dates, ids and break minutes are integers.\<close>

record TimeEntry =
  te_id :: int
  te_date :: date
  start_time :: Clock
  end_time :: Clock
  break_minutes :: int
  workplace :: WorkplaceType
  duration_hours :: number

record DaySummary =
  entries :: "TimeEntry list"
  total_hours :: number

text \<open>\<^verbatim>\<open>dayjs().day()\<close>: 0 is Sunday, 6 is Saturday.\<close>

definition day :: "date \<Rightarrow> int" where
  "day d = (d + 4) mod 7"

text \<open>The isoWeek plugin: \<^verbatim>\<open>isoWeekday()\<close> is \<^verbatim>\<open>day() || 7\<close>, and
  \<^verbatim>\<open>startOf('isoWeek')\<close> goes back \<^verbatim>\<open>isoWeekday() - 1\<close> days.\<close>

definition isoWeekday :: "date \<Rightarrow> int" where
  "isoWeekday d = (if day d = 0 then 7 else day d)"

definition startOf_isoWeek :: "date \<Rightarrow> date" where
  "startOf_isoWeek d = d - (isoWeekday d - 1)"

text \<open>The civil date of a day number in the Gregorian calendar, as year, month (1 to 12)
  and day of the month; \<^verbatim>\<open>year()\<close>, and \<^verbatim>\<open>month()\<close>, which counts from 0.\<close>

definition civil :: "date \<Rightarrow> int \<times> int \<times> int" where
  "civil z0 =
     (let z = z0 + 719468;
          era = z div 146097;
          doe = z mod 146097;
          yoe = (doe - doe div 1460 + doe div 36524 - doe div 146096) div 365;
          doy = doe - (365 * yoe + yoe div 4 - yoe div 100);
          mp = (5 * doy + 2) div 153;
          d = doy - (153 * mp + 2) div 5 + 1;
          m = (if mp < 10 then mp + 3 else mp - 9);
          y = yoe + era * 400 + (if m \<le> 2 then 1 else 0)
      in (y, m, d))"

definition year :: "date \<Rightarrow> int" where
  "year d = fst (civil d)"

definition month :: "date \<Rightarrow> int" where
  "month d = fst (snd (civil d)) - 1"

section \<open>Weekly reminder (frontend/src/pages/CalendarPage.tsx, checkWeeklyEntries)\<close>

text \<open>The three maps the effect fills with \<^verbatim>\<open>forEach\<close>: a later record for the same
  date replaces an earlier one.\<close>

definition calendarMap_of :: "CalendarDay list \<Rightarrow> (date \<rightharpoonup> CalendarDay)" where
  "calendarMap_of days = fold (\<lambda>c m. m(cd_date c \<mapsto> c)) days Map.empty"

definition entriesMap_of :: "TimeEntry list \<Rightarrow> (date \<rightharpoonup> bool)" where
  "entriesMap_of es = fold (\<lambda>e m. m(te_date e \<mapsto> True)) es Map.empty"

definition statusMap_of :: "DayStatus list \<Rightarrow> (date \<rightharpoonup> DayStatus)" where
  "statusMap_of sts = fold (\<lambda>st m. m(ds_date st \<mapsto> st)) sts Map.empty"

text \<open>\<^verbatim>\<open>calDay?.day_type === 'holiday'\<close>\<close>

definition is_holiday :: "CalendarDay option \<Rightarrow> bool" where
  "is_holiday calDay = (case calDay of None \<Rightarrow> False | Some c \<Rightarrow> day_type c = Holiday)"

text \<open>\<^verbatim>\<open>status?.status === 'sick' || ... === 'vacation' || ... === 'excused'\<close>\<close>

definition is_absence :: "DayStatus option \<Rightarrow> bool" where
  "is_absence st =
     (case st of None \<Rightarrow> False
      | Some x \<Rightarrow> status x = Sick \<or> status x = Vacation \<or> status x = Excused)"

text \<open>The \<^verbatim>\<open>while (!currentDay.isAfter(weekEnd, 'day'))\<close> loop, with \<open>missing\<close> the
  list built so far.\<close>

function findMissing ::
  "(date \<rightharpoonup> CalendarDay) \<Rightarrow> (date \<rightharpoonup> DayStatus) \<Rightarrow> (date \<rightharpoonup> bool)
     \<Rightarrow> date \<Rightarrow> date \<Rightarrow> date list \<Rightarrow> date list" where
  "findMissing calendarMap statusMap entriesMap weekEnd currentDay missing =
     (if weekEnd < currentDay then missing
      else if day currentDay = 0 \<or> day currentDay = 6 then
        findMissing calendarMap statusMap entriesMap weekEnd (currentDay + 1) missing
      else if is_holiday (calendarMap currentDay) then
        findMissing calendarMap statusMap entriesMap weekEnd (currentDay + 1) missing
      else if is_absence (statusMap currentDay) then
        findMissing calendarMap statusMap entriesMap weekEnd (currentDay + 1) missing
      else if entriesMap currentDay = None then
        findMissing calendarMap statusMap entriesMap weekEnd (currentDay + 1)
          (missing @ [currentDay])
      else findMissing calendarMap statusMap entriesMap weekEnd (currentDay + 1) missing)"
  by pat_completeness auto
termination
  by (relation "measure (\<lambda>(c, s, e, weekEnd, currentDay, m). nat (weekEnd + 1 - currentDay))")
    auto

text \<open>The equation of the loop is unfolded by hand only: it mentions itself.\<close>

declare findMissing.simps [simp del]

text \<open>The state of the reminder in the calendar page.\<close>

record WeeklyState =
  weeklyReminderChecked :: bool
  missingDays :: "date list"
  currentFillingDay :: "date option"
  weeklyReminderVisible :: bool

definition weekly_initial :: WeeklyState where
  "weekly_initial =
     \<lparr>weeklyReminderChecked = False, missingDays = [], currentFillingDay = None,
      weeklyReminderVisible = False\<rparr>"

text \<open>What the three requests of the effect return: the calendar request, for the month
  of today, is awaited first; the entries and statuses requests, for Monday to Friday, are
  awaited together. A rejection of either ends in the \<^verbatim>\<open>catch\<close>.\<close>

datatype weekly_fetch =
  CalendarRejected
  | RangeRejected "CalendarDay list"
  | Fetched "CalendarDay list" "TimeEntry list" "DayStatus list"

text \<open>The requests of the effect: \<^verbatim>\<open>api.getCalendarMonth(year, month)\<close> and the two
  requests for a range of dates.\<close>

datatype weekly_call =
  GetCalendarMonth int int
  | GetTimeEntries date date
  | GetDayStatuses date date

definition weekly_missing :: "date \<Rightarrow> CalendarDay list \<Rightarrow> TimeEntry list \<Rightarrow> DayStatus list \<Rightarrow> date list" where
  "weekly_missing today calendarData entriesData statusesData =
     (let weekStart = startOf_isoWeek today; weekEnd = weekStart + 4
      in findMissing (calendarMap_of calendarData) (statusMap_of statusesData)
           (entriesMap_of entriesData) weekEnd weekStart [])"

text \<open>\<^verbatim>\<open>checkWeeklyEntries\<close>: the new state and the requests it sent.\<close>

definition checkWeeklyEntries ::
  "User option \<Rightarrow> date \<Rightarrow> weekly_fetch \<Rightarrow> WeeklyState \<Rightarrow> WeeklyState \<times> weekly_call list" where
  "checkWeeklyEntries usr today fetch st =
     (if weeklyReminderChecked st then (st, [])
      else if (case usr of None \<Rightarrow> False | Some u \<Rightarrow> role u = Admin)
        then (st\<lparr>weeklyReminderChecked := True\<rparr>, [])
      else
        (let weekStart = startOf_isoWeek today; weekEnd = weekStart + 4 in
         (case fetch of
            CalendarRejected \<Rightarrow>
              (st\<lparr>weeklyReminderChecked := True\<rparr>, [GetCalendarMonth (year today) (month today + 1)])
          | RangeRejected calendarData \<Rightarrow>
              (st\<lparr>weeklyReminderChecked := True\<rparr>,
               [GetCalendarMonth (year today) (month today + 1), GetTimeEntries weekStart weekEnd,
                GetDayStatuses weekStart weekEnd])
          | Fetched calendarData entriesData statusesData \<Rightarrow>
              (case weekly_missing today calendarData entriesData statusesData of
                 [] \<Rightarrow> st\<lparr>weeklyReminderChecked := True\<rparr>
               | d # ds \<Rightarrow>
                   st\<lparr>weeklyReminderChecked := True, missingDays := d # ds,
                     currentFillingDay := Some d, weeklyReminderVisible := True\<rparr>,
               [GetCalendarMonth (year today) (month today + 1), GetTimeEntries weekStart weekEnd,
                GetDayStatuses weekStart weekEnd]))))"

text \<open>A sample week: today is Wednesday, day 6; Monday is day 4. Tuesday is a holiday,
  Wednesday a sick day, and Monday has a time entry.\<close>

definition example_entry :: TimeEntry where
  "example_entry =
     \<lparr>te_id = 1, te_date = 4, start_time = \<lparr>hh = 9, mm = 0, ss = 0\<rparr>,
      end_time = \<lparr>hh = 18, mm = 0, ss = 0\<rparr>, break_minutes = 60, workplace = Office,
      duration_hours = Fin 8\<rparr>"

definition example_calendar :: "CalendarDay list" where
  "example_calendar =
     [\<lparr>cd_date = 5, day_type = Holiday, is_working_day = False\<rparr>,
      \<lparr>cd_date = 7, day_type = Workday, is_working_day = True\<rparr>]"

definition example_statuses :: "DayStatus list" where
  "example_statuses = [\<lparr>ds_date = 6, status = Sick\<rparr>]"

text \<open>A calendar service for the turn of the year: December 2024 is days 20058 to 20088,
  with holidays on the 24th, 25th, 26th and 31st; January 2025 is days 20089 to 20119, with
  a holiday on the 1st. Each month is answered with the days of that month.\<close>

definition month_days :: "date \<Rightarrow> date \<Rightarrow> date list \<Rightarrow> CalendarDay list" where
  "month_days from_day to_day holidays =
     map (\<lambda>d. \<lparr>cd_date = d,
                day_type = (if d \<in> set holidays then Holiday
                            else if day d = 0 \<or> day d = 6 then Weekend else Workday),
                is_working_day = (d \<notin> set holidays \<and> day d \<noteq> 0 \<and> day d \<noteq> 6)\<rparr>)
       [from_day..to_day]"

definition calendar_service :: "int \<Rightarrow> int \<Rightarrow> CalendarDay list" where
  "calendar_service y m =
     (if y = 2024 \<and> m = 12 then month_days 20058 20088 [20081, 20082, 20083, 20088]
      else if y = 2025 \<and> m = 1 then month_days 20089 20119 [20089]
      else [])"

section \<open>Requests, payloads and handler effects\<close>

text \<open>An awaited API call resolves with its data, or rejects; a rejection carries the
  optional \<^verbatim>\<open>error.response?.data?.detail\<close>.\<close>

datatype 'a api_result = Resolved 'a | Failed "string option"

text \<open>The values of a time-entry form. The pickers hold times of day; \<open>v_break_minutes\<close>
  is the form's break field (\<open>None\<close> when empty).\<close>

record EntryFormValues =
  v_start_time :: Clock
  v_end_time :: Clock
  v_break_minutes :: "int option"
  v_workplace :: WorkplaceType
  v_comment :: "string option"

text \<open>The body of a create or update request; times are sent as \<^verbatim>\<open>HH:mm\<close>, here the
  pair of hour and minute. An update from the calendar sends no date.\<close>

record TimeEntryPayload =
  p_date :: "date option"
  p_start_time :: "int \<times> int"
  p_end_time :: "int \<times> int"
  p_break_minutes :: int
  p_workplace :: WorkplaceType
  p_comment :: "string option"

definition format_HHmm :: "Clock \<Rightarrow> int \<times> int" where
  "format_HHmm t = (hh t, mm t)"

datatype ChangeRequestType = AddRequest | EditRequest | DeleteRequest

datatype ChangeRequestStatus = Pending | Approved | Rejected

record ChangeRequestCreate =
  cr_request_type :: ChangeRequestType
  cr_time_entry_id :: "int option"
  cr_date :: date
  cr_start_time :: "(int \<times> int) option"
  cr_end_time :: "(int \<times> int) option"
  cr_break_minutes :: "int option"
  cr_workplace :: "WorkplaceType option"
  cr_comment :: "string option"
  cr_reason :: string

record ChangeRequestResolve =
  res_status :: ChangeRequestStatus
  res_admin_comment :: "string option"

record VacationCreate =
  date_from :: date
  date_to :: date
  vac_note :: "string option"

datatype api_call =
  CreateTimeEntry TimeEntryPayload
  | UpdateTimeEntry int TimeEntryPayload
  | DeleteTimeEntry int
  | CreateEmployeeTimeEntry int TimeEntryPayload
  | GetDaySummary date
  | CreateChangeRequest ChangeRequestCreate
  | ResolveChangeRequest int ChangeRequestResolve
  | CreateVacation VacationCreate
  | UpdateVacation int VacationCreate

datatype entry_action = EditAction | DeleteAction

text \<open>What a handler does besides changing its component's state, in order: requests,
  toasts, form resets, refetches that are started and not awaited, and confirm dialogs
  (whose buttons are later events). A toast is given by its text or translation key;
  \<open>MessageSuccessDay d key\<close> is the success toast whose text is the day \<open>d\<close> as
  \<^verbatim>\<open>DD.MM\<close>, a dash, and the translation of \<open>key\<close> followed by the letter d.\<close>

datatype effect =
  Call api_call
  | MessageError string
  | MessageSuccess string
  | MessageSuccessDay date string
  | ResetFields
  | FetchData
  | FetchSchedule
  | FetchMonthData
  | FetchDailyData
  | FetchRequests
  | ConfirmRequestChange TimeEntry entry_action
  | ConfirmDirectDelete TimeEntry

definition sends_create :: "effect list \<Rightarrow> bool" where
  "sends_create effs = (\<exists>p \<in> set effs. case p of Call (CreateTimeEntry x) \<Rightarrow> True | _ \<Rightarrow> False)"

definition calls_of :: "effect list \<Rightarrow> api_call list" where
  "calls_of effs = concat (map (\<lambda>e. case e of Call c \<Rightarrow> [c] | _ \<Rightarrow> []) effs)"

section \<open>Shared arithmetic of the entry forms\<close>

text \<open>\<^verbatim>\<open>t.hour() * 60 + t.minute()\<close>\<close>

definition minutes_of :: "Clock \<Rightarrow> int" where
  "minutes_of t = hh t * 60 + mm t"

text \<open>\<^verbatim>\<open>(endMinutes - startMinutes) - breakMins\<close>\<close>

definition workMinutes :: "EntryFormValues \<Rightarrow> int \<Rightarrow> int" where
  "workMinutes values breakMins =
     (minutes_of (v_end_time values) - minutes_of (v_start_time values)) - breakMins"

text \<open>\<^verbatim>\<open>!summary?.entries || summary.entries.length === 0\<close>\<close>

definition isFirstEntry :: "DaySummary option \<Rightarrow> bool" where
  "isFirstEntry summary = (case summary of None \<Rightarrow> True | Some s \<Rightarrow> entries s = [])"

text \<open>\<^verbatim>\<open>summary?.entries?.reduce((sum, e) => sum + (e.duration_hours * 60), 0) || 0\<close>\<close>

definition existingWorkMinutes :: "DaySummary option \<Rightarrow> number" where
  "existingWorkMinutes summary =
     (case summary of
        None \<Rightarrow> Fin 0
      | Some s \<Rightarrow>
          number_or_zero
            (foldl (\<lambda>sum e. dadd sum (dmul (duration_hours e) (Fin 60))) (Fin 0) (entries s)))"

section \<open>Dashboard (frontend/src/pages/DashboardPage.tsx)\<close>

record DashboardState =
  todaySummary :: "DaySummary option"
  d_entryModalVisible :: bool
  vacationModalVisible :: bool
  editVacationModalVisible :: bool
  editingVacation :: "int option"

text \<open>\<^verbatim>\<open>handleCreateEntry\<close> of the dashboard; \<open>today\<close> is \<^verbatim>\<open>dayjs()\<close> and \<open>outcome\<close>
  what \<^verbatim>\<open>api.createTimeEntry\<close> returns if it is called.\<close>

definition Dashboard_handleCreateEntry ::
  "date \<Rightarrow> unit api_result \<Rightarrow> DashboardState \<Rightarrow> EntryFormValues \<Rightarrow> DashboardState \<times> effect list" where
  "Dashboard_handleCreateEntry today outcome st values =
     (let breakMins = (if isFirstEntry (todaySummary st) then 60 else 0);
          existing = existingWorkMinutes (todaySummary st);
          newWorkMinutes = workMinutes values breakMins;
          totalWorkMinutes = dadd existing (num newWorkMinutes);
          request = CreateTimeEntry
            \<lparr>p_date = Some today, p_start_time = format_HHmm (v_start_time values),
             p_end_time = format_HHmm (v_end_time values), p_break_minutes = breakMins,
             p_workplace = v_workplace values, p_comment = v_comment values\<rparr>
      in if gt totalWorkMinutes (Fin 480)
         then (st, [MessageError ''timeEntry.validation.maxHoursDaily''])
         else (case outcome of
                 Resolved u \<Rightarrow>
                   (st\<lparr>d_entryModalVisible := False\<rparr>,
                    [Call request, MessageSuccess ''Time entry created'', ResetFields, FetchData])
               | Failed detail \<Rightarrow>
                   (st, [Call request, MessageError (detail_or detail ''Failed to create entry'')])))"

section \<open>Calendar page entry handlers (frontend/src/pages/CalendarPage.tsx)\<close>

record CalendarState =
  daySummary :: "DaySummary option"
  selectedDate :: date
  entryModalVisible :: bool
  editingEntry :: "TimeEntry option"
  changeRequestModalVisible :: bool
  changeRequestDate :: "date option"

text \<open>After a successful request the handlers await \<^verbatim>\<open>api.getDaySummary\<close> inside the
  same \<^verbatim>\<open>try\<close>: \<open>refreshed\<close> is what it returns.\<close>

definition Calendar_handleCreateEntry ::
  "unit api_result \<Rightarrow> DaySummary api_result \<Rightarrow> CalendarState \<Rightarrow> EntryFormValues
     \<Rightarrow> CalendarState \<times> effect list" where
  "Calendar_handleCreateEntry outcome refreshed st values =
     (let breakMins = (if isFirstEntry (daySummary st) then 60 else 0);
          existing = existingWorkMinutes (daySummary st);
          newWorkMinutes = workMinutes values breakMins;
          totalWorkMinutes = dadd existing (num newWorkMinutes);
          request = CreateTimeEntry
            \<lparr>p_date = Some (selectedDate st), p_start_time = format_HHmm (v_start_time values),
             p_end_time = format_HHmm (v_end_time values), p_break_minutes = breakMins,
             p_workplace = v_workplace values, p_comment = v_comment values\<rparr>
      in if gt totalWorkMinutes (Fin 480)
         then (st, [MessageError ''timeEntry.validation.maxHoursDaily''])
         else (case outcome of
                 Failed detail \<Rightarrow>
                   (st, [Call request, MessageError (detail_or detail ''Failed to create entry'')])
               | Resolved u \<Rightarrow>
                   (case refreshed of
                      Resolved summary \<Rightarrow>
                        (st\<lparr>entryModalVisible := False, daySummary := Some summary\<rparr>,
                         [Call request, MessageSuccess ''Time entry created'', ResetFields,
                          FetchMonthData, Call (GetDaySummary (selectedDate st))])
                    | Failed detail \<Rightarrow>
                        (st\<lparr>entryModalVisible := False\<rparr>,
                         [Call request, MessageSuccess ''Time entry created'', ResetFields,
                          FetchMonthData, Call (GetDaySummary (selectedDate st)),
                          MessageError (detail_or detail ''Failed to create entry'')]))))"

text \<open>\<^verbatim>\<open>showEditTimeExpiredModal\<close>: an admin edits or deletes directly; anyone else is
  offered a change request.\<close>

definition showEditTimeExpiredModal ::
  "User option \<Rightarrow> TimeEntry \<Rightarrow> entry_action \<Rightarrow> CalendarState \<Rightarrow> CalendarState \<times> effect list" where
  "showEditTimeExpiredModal usr entry action st =
     (if (case usr of None \<Rightarrow> False | Some u \<Rightarrow> role u = Admin) then
        (case action of
           EditAction \<Rightarrow> (st\<lparr>editingEntry := Some entry, entryModalVisible := True\<rparr>, [])
         | DeleteAction \<Rightarrow> (st, [ConfirmDirectDelete entry]))
      else (st, [ConfirmRequestChange entry action]))"

definition Calendar_handleEditEntry ::
  "User option \<Rightarrow> unit api_result \<Rightarrow> DaySummary api_result \<Rightarrow> CalendarState \<Rightarrow> EntryFormValues
     \<Rightarrow> CalendarState \<times> effect list" where
  "Calendar_handleEditEntry usr outcome refreshed st values =
     (case editingEntry st of
        None \<Rightarrow> (st, [])
      | Some editing \<Rightarrow>
          (let breakMins = break_minutes editing;
               request = UpdateTimeEntry (te_id editing)
                 \<lparr>p_date = None, p_start_time = format_HHmm (v_start_time values),
                  p_end_time = format_HHmm (v_end_time values), p_break_minutes = breakMins,
                  p_workplace = v_workplace values, p_comment = v_comment values\<rparr>;
               on_error = (\<lambda>s effs detail.
                 if detail = Some ''EDIT_TIME_EXPIRED'' then
                   (case showEditTimeExpiredModal usr editing EditAction
                           (s\<lparr>entryModalVisible := False\<rparr>) of
                      (s', effs') \<Rightarrow> (s'\<lparr>editingEntry := None\<rparr>, effs @ effs' @ [ResetFields]))
                 else (s, effs @ [MessageError (detail_or detail ''Failed to update entry'')]))
           in if workMinutes values breakMins > 480
              then (st, [MessageError ''timeEntry.validation.maxHours''])
              else (case outcome of
                      Failed detail \<Rightarrow> on_error st [Call request] detail
                    | Resolved u \<Rightarrow>
                        (let st1 = st\<lparr>editingEntry := None, entryModalVisible := False\<rparr>;
                             effs = [Call request, MessageSuccess ''Entry updated'', ResetFields,
                                     FetchMonthData, Call (GetDaySummary (selectedDate st))]
                         in case refreshed of
                              Resolved summary \<Rightarrow> (st1\<lparr>daySummary := Some summary\<rparr>, effs)
                            | Failed detail \<Rightarrow> on_error st1 effs detail))))"

definition Calendar_handleDeleteEntry ::
  "User option \<Rightarrow> unit api_result \<Rightarrow> DaySummary api_result \<Rightarrow> CalendarState \<Rightarrow> TimeEntry
     \<Rightarrow> CalendarState \<times> effect list" where
  "Calendar_handleDeleteEntry usr outcome refreshed st entry =
     (let on_error = (\<lambda>s effs detail.
            if detail = Some ''EDIT_TIME_EXPIRED'' then
              (case showEditTimeExpiredModal usr entry DeleteAction s of
                 (s', effs') \<Rightarrow> (s', effs @ effs'))
            else (s, effs @ [MessageError ''Failed to delete entry'']))
      in case outcome of
           Failed detail \<Rightarrow> on_error st [Call (DeleteTimeEntry (te_id entry))] detail
         | Resolved u \<Rightarrow>
             (let effs = [Call (DeleteTimeEntry (te_id entry)), MessageSuccess ''Entry deleted'',
                          FetchMonthData, Call (GetDaySummary (selectedDate st))]
              in case refreshed of
                   Resolved summary \<Rightarrow> (st\<lparr>daySummary := Some summary\<rparr>, effs)
                 | Failed detail \<Rightarrow> on_error st effs detail))"

text \<open>The values of the change-request form.\<close>

record ChangeRequestFormValues =
  f_request_type :: ChangeRequestType
  f_time_entry_id :: "int option"
  f_start_time :: "Clock option"
  f_end_time :: "Clock option"
  f_break_minutes :: "int option"
  f_workplace :: "WorkplaceType option"
  f_comment :: "string option"
  f_reason :: string

text \<open>The break a change request carries: \<^verbatim>\<open>values.break_minutes\<close> unless the type is
  add (60 for a first entry, else 0) or edit (the break of the entry with the chosen id in
  the day summary, \<^verbatim>\<open>?? 60\<close> when there is none).\<close>

definition changeRequest_breakMins :: "DaySummary option \<Rightarrow> ChangeRequestFormValues \<Rightarrow> int option" where
  "changeRequest_breakMins summary values =
     (case f_request_type values of
        AddRequest \<Rightarrow>
          (let hasExistingEntries = (case summary of None \<Rightarrow> False | Some s \<Rightarrow> entries s \<noteq> [])
           in Some (if hasExistingEntries then 0 else 60))
      | EditRequest \<Rightarrow>
          (let selectedEntry =
                 (case summary of
                    None \<Rightarrow> None
                  | Some s \<Rightarrow> find (\<lambda>e. Some (te_id e) = f_time_entry_id values) (entries s))
           in Some (case selectedEntry of None \<Rightarrow> 60 | Some e \<Rightarrow> break_minutes e))
      | DeleteRequest \<Rightarrow> f_break_minutes values)"

definition Calendar_handleCreateChangeRequest ::
  "unit api_result \<Rightarrow> CalendarState \<Rightarrow> ChangeRequestFormValues \<Rightarrow> CalendarState \<times> effect list" where
  "Calendar_handleCreateChangeRequest outcome st values =
     (let request = CreateChangeRequest
            \<lparr>cr_request_type = f_request_type values,
             cr_time_entry_id = f_time_entry_id values,
             cr_date = (case changeRequestDate st of Some d \<Rightarrow> d | None \<Rightarrow> selectedDate st),
             cr_start_time = map_option format_HHmm (f_start_time values),
             cr_end_time = map_option format_HHmm (f_end_time values),
             cr_break_minutes = changeRequest_breakMins (daySummary st) values,
             cr_workplace = f_workplace values,
             cr_comment = f_comment values,
             cr_reason = f_reason values\<rparr>
      in case outcome of
           Resolved u \<Rightarrow>
             (st\<lparr>changeRequestModalVisible := False, changeRequestDate := None\<rparr>,
              [Call request, MessageSuccess ''changeRequest.createSuccess'', ResetFields])
         | Failed detail \<Rightarrow>
             (st, [Call request, MessageError (detail_or detail ''errors.somethingWentWrong'')]))"

text \<open>\<^verbatim>\<open>missingDays.filter((_, i) => i !== currentIndex)\<close> with \<^verbatim>\<open>currentIndex\<close> the
  \<^verbatim>\<open>findIndex\<close> of the day being filled (\<open>-1\<close> when absent, which removes nothing).\<close>

fun remove_first :: "date \<Rightarrow> date list \<Rightarrow> date list" where
  "remove_first d [] = []"
| "remove_first d (x # xs) = (if x = d then xs else x # remove_first d xs)"

definition Calendar_handleWeeklyEntrySubmit ::
  "unit api_result \<Rightarrow> WeeklyState \<Rightarrow> EntryFormValues \<Rightarrow> WeeklyState \<times> effect list" where
  "Calendar_handleWeeklyEntrySubmit outcome st values =
     (case currentFillingDay st of
        None \<Rightarrow> (st, [])
      | Some filling \<Rightarrow>
          (let breakMins = 60;
               request = CreateTimeEntry
                 \<lparr>p_date = Some filling, p_start_time = format_HHmm (v_start_time values),
                  p_end_time = format_HHmm (v_end_time values), p_break_minutes = breakMins,
                  p_workplace = v_workplace values, p_comment = v_comment values\<rparr>
           in if workMinutes values breakMins > 480
              then (st, [MessageError ''timeEntry.validation.maxHours''])
              else (case outcome of
                      Failed detail \<Rightarrow>
                        (st, [Call request,
                              MessageError (detail_or detail ''errors.somethingWentWrong'')])
                    | Resolved u \<Rightarrow>
                        (case remove_first filling (missingDays st) of
                           d # ds \<Rightarrow>
                             (st\<lparr>missingDays := d # ds, currentFillingDay := Some d\<rparr>,
                              [Call request, MessageSuccessDay filling ''common.save'',
                               ResetFields])
                         | [] \<Rightarrow>
                             (st\<lparr>weeklyReminderVisible := False, missingDays := [],
                                currentFillingDay := None\<rparr>,
                              [Call request, MessageSuccessDay filling ''common.save'',
                               ResetFields, FetchMonthData,
                               MessageSuccess ''calendar.weekFilledSuccess''])))))"

definition Calendar_handleSkipDay :: "WeeklyState \<Rightarrow> WeeklyState \<times> effect list" where
  "Calendar_handleSkipDay st =
     (case currentFillingDay st of
        None \<Rightarrow> (st, [])
      | Some filling \<Rightarrow>
          (case remove_first filling (missingDays st) of
             d # ds \<Rightarrow> (st\<lparr>missingDays := d # ds, currentFillingDay := Some d\<rparr>, [ResetFields])
           | [] \<Rightarrow> (st\<lparr>weeklyReminderVisible := False\<rparr>, [FetchMonthData])))"

section \<open>Admin daily overview (frontend/src/pages/admin/DailyOverviewPage.tsx)\<close>

text \<open>\<^verbatim>\<open>dayjs(`${entry.date} ${entry.start_time}`)\<close> reads the text as a time on the
  wall clock of the browser's zone and yields the instant in milliseconds since the epoch.
  A zone is the offset from UTC, in milliseconds, that it applies to a wall-clock time
  (itself in milliseconds since 1970-01-01 00:00 on the wall clock).\<close>

type_synonym zone = "int \<Rightarrow> int"

definition wall_ms :: "date \<Rightarrow> Clock \<Rightarrow> int" where
  "wall_ms d t = d * 86400000 + ((hh t * 60 + mm t) * 60 + ss t) * 1000"

definition dayjs_ms :: "zone \<Rightarrow> date \<Rightarrow> Clock \<Rightarrow> int" where
  "dayjs_ms zone d t = (let wall = wall_ms d t in wall - zone wall)"

text \<open>\<^verbatim>\<open>end.diff(start, 'hour', true)\<close>: the difference of the two instants divided by
  the milliseconds of an hour, as a fraction.\<close>

definition diff_hours :: "int \<Rightarrow> int \<Rightarrow> number" where
  "diff_hours e s = ddiv_pos (dsub (num e) (num s)) 3600000"

text \<open>The body of the \<^verbatim>\<open>reduce\<close> in \<^verbatim>\<open>fetchDailyData\<close>.\<close>

definition entry_hours :: "zone \<Rightarrow> TimeEntry \<Rightarrow> number" where
  "entry_hours zone entry =
     (let start = dayjs_ms zone (te_date entry) (start_time entry);
          end' = dayjs_ms zone (te_date entry) (end_time entry)
      in dsub (diff_hours end' start) (ddiv_pos (num (or_zero (break_minutes entry))) 60))"

definition dailyTotalHours :: "zone \<Rightarrow> TimeEntry list \<Rightarrow> number" where
  "dailyTotalHours zone es =
     (if es \<noteq> [] then foldl (\<lambda>sum entry. dadd sum (entry_hours zone entry)) (Fin 0) es
      else Fin 0)"

text \<open>Two zones: UTC, and Europe/Riga during 2024, where the wall clock is two hours ahead
  of UTC and three hours ahead from 2024-03-31 (day 19813) 04:00 to 2024-10-27 (day 20023)
  04:00; the wall-clock hour skipped on 2024-03-31, 03:00 to 04:00, is read with the offset
  of two hours.\<close>

definition utc :: zone where
  "utc wall = 0"

definition europe_riga_2024 :: zone where
  "europe_riga_2024 wall =
     (if 19813 * 86400000 + 4 * 3600000 \<le> wall \<and> wall < 20023 * 86400000 + 4 * 3600000
      then 3 * 3600000 else 2 * 3600000)"

record DailyOverviewState =
  editModalVisible :: bool
  do_editingEntry :: "TimeEntry option"
  editingUser :: "User option"
  do_selectedDate :: date

text \<open>\<^verbatim>\<open>handleSaveEntry\<close>: the admin's form has an enabled break field, sent as
  \<^verbatim>\<open>values.break_minutes || 0\<close> on update and on create alike.\<close>

definition DailyOverview_handleSaveEntry ::
  "unit api_result \<Rightarrow> DailyOverviewState \<Rightarrow> EntryFormValues \<Rightarrow> DailyOverviewState \<times> effect list" where
  "DailyOverview_handleSaveEntry outcome st values =
     (case editingUser st of
        None \<Rightarrow> (st, [])
      | Some employee \<Rightarrow>
          (let entryData =
                 \<lparr>p_date = Some (do_selectedDate st),
                  p_start_time = format_HHmm (v_start_time values),
                  p_end_time = format_HHmm (v_end_time values),
                  p_break_minutes = (case v_break_minutes values of None \<Rightarrow> 0 | Some b \<Rightarrow> or_zero b),
                  p_workplace = v_workplace values, p_comment = v_comment values\<rparr>;
               request = (case do_editingEntry st of
                            Some e \<Rightarrow> UpdateTimeEntry (te_id e) entryData
                          | None \<Rightarrow> CreateEmployeeTimeEntry (user_id employee) entryData);
               done_msg = (case do_editingEntry st of
                            Some e \<Rightarrow> ''timeEntry.updateSuccess''
                          | None \<Rightarrow> ''timeEntry.addSuccess'')
           in case outcome of
                Resolved u \<Rightarrow>
                  (st\<lparr>editModalVisible := False, do_editingEntry := None, editingUser := None\<rparr>,
                   [Call request, MessageSuccess done_msg, ResetFields, FetchDailyData])
              | Failed detail \<Rightarrow>
                  (st, [Call request,
                        MessageError (detail_or detail ''errors.somethingWentWrong'')])))"

section \<open>The day total in the words of the specification\<close>

text \<open>The specification's day total: over the day's entries, end time minus start time
  minus the break minutes, converted to hours.\<close>

definition seconds_of :: "Clock \<Rightarrow> int" where
  "seconds_of t = (hh t * 60 + mm t) * 60 + ss t"

definition spec_entry_hours :: "TimeEntry \<Rightarrow> rat" where
  "spec_entry_hours e =
     (of_int (seconds_of (end_time e) - seconds_of (start_time e)) / 60
        - of_int (break_minutes e)) / 60"

definition spec_day_total :: "TimeEntry list \<Rightarrow> rat" where
  "spec_day_total es = (\<Sum>e\<leftarrow>es. spec_entry_hours e)"

text \<open>An entry of the night of 2024-03-31, from 02:00 to 11:00 with a break of 60 minutes,
  and an entry from 09:00 to 17:20 with a break of 60 minutes.\<close>

definition night_entry :: TimeEntry where
  "night_entry =
     \<lparr>te_id = 7, te_date = 19813, start_time = \<lparr>hh = 2, mm = 0, ss = 0\<rparr>,
      end_time = \<lparr>hh = 11, mm = 0, ss = 0\<rparr>, break_minutes = 60, workplace = Remote,
      duration_hours = Fin 8\<rparr>"

definition long_entry :: TimeEntry where
  "long_entry =
     \<lparr>te_id = 8, te_date = 6, start_time = \<lparr>hh = 9, mm = 0, ss = 0\<rparr>,
      end_time = \<lparr>hh = 17, mm = 20, ss = 0\<rparr>, break_minutes = 60, workplace = Office,
      duration_hours = json_number (7333333333333333 / 10 ^ 15)\<rparr>"

section \<open>States of the weekly reminder, and the cap in the specification's words\<close>

text \<open>The weekly states that occur for one fetched week: the state the check leaves, and
  any state after a submitted form, a skipped day or a closed dialog.\<close>

inductive weekly_reachable ::
  "date \<Rightarrow> CalendarDay list \<Rightarrow> TimeEntry list \<Rightarrow> DayStatus list \<Rightarrow> WeeklyState \<Rightarrow> bool"
  for today cal es sts where
  w_checked:
    "weekly_reachable today cal es sts
       (fst (checkWeeklyEntries usr today (Fetched cal es sts) weekly_initial))"
| w_submitted:
    "weekly_reachable today cal es sts st \<Longrightarrow>
     weekly_reachable today cal es sts (fst (Calendar_handleWeeklyEntrySubmit out st values))"
| w_skipped:
    "weekly_reachable today cal es sts st \<Longrightarrow>
     weekly_reachable today cal es sts (fst (Calendar_handleSkipDay st))"
| w_closed:
    "weekly_reachable today cal es sts st \<Longrightarrow>
     weekly_reachable today cal es sts (st\<lparr>weeklyReminderVisible := False\<rparr>)"

text \<open>The entries the client knows for the day, the minutes already worked on it (each
  entry's end minus start minus break), and the minutes of the new entry: end minus start
  minus the break, which is 60 for a day's first entry and 0 otherwise.\<close>

definition summary_entries :: "DaySummary option \<Rightarrow> TimeEntry list" where
  "summary_entries summary = (case summary of None \<Rightarrow> [] | Some s \<Rightarrow> entries s)"

definition spec_entry_minutes :: "TimeEntry \<Rightarrow> int" where
  "spec_entry_minutes e = (minutes_of (end_time e) - minutes_of (start_time e)) - break_minutes e"

definition spec_existing_minutes :: "TimeEntry list \<Rightarrow> int" where
  "spec_existing_minutes es = (\<Sum>e\<leftarrow>es. spec_entry_minutes e)"

definition spec_new_minutes :: "EntryFormValues \<Rightarrow> TimeEntry list \<Rightarrow> int" where
  "spec_new_minutes values existing =
     (minutes_of (v_end_time values) - minutes_of (v_start_time values))
       - (if existing = [] then 60 else 0)"

definition example_values :: EntryFormValues where
  "example_values =
     \<lparr>v_start_time = \<lparr>hh = 9, mm = 0, ss = 0\<rparr>, v_end_time = \<lparr>hh = 18, mm = 0, ss = 0\<rparr>,
      v_break_minutes = Some 60, v_workplace = Office, v_comment = None\<rparr>"

definition example_dashboard :: DashboardState where
  "example_dashboard =
     \<lparr>todaySummary = None, d_entryModalVisible = True, vacationModalVisible = False,
      editVacationModalVisible = False, editingVacation = None\<rparr>"

definition example_calendar_state :: CalendarState where
  "example_calendar_state =
     \<lparr>daySummary = Some \<lparr>entries = [example_entry], total_hours = Fin 8\<rparr>, selectedDate = 4,
      entryModalVisible = True, editingEntry = None, changeRequestModalVisible = False,
      changeRequestDate = None\<rparr>"

text \<open>An entry whose \<open>duration_hours * 60\<close>, as the forms compute it, is exactly the
  minutes between its start and end less its break, and not negative.\<close>

definition exact_minutes :: "TimeEntry \<Rightarrow> bool" where
  "exact_minutes e =
     (0 \<le> spec_entry_minutes e
      \<and> dmul (duration_hours e) (Fin 60) = Fin (of_int (spec_entry_minutes e)))"

text \<open>A day with two entries, of 31 and of 249 minutes, whose \<open>duration_hours\<close> are the
  numbers nearest to 31/60 and 249/60, as read from the texts \<^verbatim>\<open>0.5166666666666667\<close> and
  \<^verbatim>\<open>4.15\<close>; and a form filled with a third entry of 200 minutes.\<close>

definition cap_entry_1 :: TimeEntry where
  "cap_entry_1 =
     \<lparr>te_id = 11, te_date = 6, start_time = \<lparr>hh = 9, mm = 0, ss = 0\<rparr>,
      end_time = \<lparr>hh = 10, mm = 31, ss = 0\<rparr>, break_minutes = 60, workplace = Office,
      duration_hours = json_number (5166666666666667 / 10 ^ 16)\<rparr>"

definition cap_entry_2 :: TimeEntry where
  "cap_entry_2 =
     \<lparr>te_id = 12, te_date = 6, start_time = \<lparr>hh = 11, mm = 0, ss = 0\<rparr>,
      end_time = \<lparr>hh = 15, mm = 9, ss = 0\<rparr>, break_minutes = 0, workplace = Office,
      duration_hours = json_number (415 / 100)\<rparr>"

definition cap_summary :: DaySummary where
  "cap_summary =
     \<lparr>entries = [cap_entry_1, cap_entry_2], total_hours = json_number (4666666666666667 / 10 ^ 15)\<rparr>"

definition cap_values :: EntryFormValues where
  "cap_values =
     \<lparr>v_start_time = \<lparr>hh = 15, mm = 10, ss = 0\<rparr>, v_end_time = \<lparr>hh = 18, mm = 30, ss = 0\<rparr>,
      v_break_minutes = None, v_workplace = Office, v_comment = None\<rparr>"

definition cap_dashboard :: DashboardState where
  "cap_dashboard =
     \<lparr>todaySummary = Some cap_summary, d_entryModalVisible = True, vacationModalVisible = False,
      editVacationModalVisible = False, editingVacation = None\<rparr>"

definition cap_calendar_state :: CalendarState where
  "cap_calendar_state =
     \<lparr>daySummary = Some cap_summary, selectedDate = 6, entryModalVisible = True,
      editingEntry = None, changeRequestModalVisible = False, changeRequestDate = None\<rparr>"

text \<open>Every day still listed, and the day being filled, is one the walk listed.\<close>

definition weekly_inv :: "date list \<Rightarrow> WeeklyState \<Rightarrow> bool" where
  "weekly_inv listed st =
     (set (missingDays st) \<subseteq> set listed
      \<and> (case currentFillingDay st of None \<Rightarrow> True | Some d \<Rightarrow> d \<in> set listed))"

text \<open>No day is listed twice, and the day being filled is the first one listed.\<close>

definition weekly_order :: "WeeklyState \<Rightarrow> bool" where
  "weekly_order st =
     (distinct (missingDays st)
      \<and> (case currentFillingDay st of
            None \<Rightarrow> True
          | Some d \<Rightarrow> missingDays st \<noteq> [] \<and> hd (missingDays st) = d))"

section \<open>The break minutes a request carries\<close>

text \<open>The break of a request that creates or updates a time entry, or asks for such a
  change; other requests carry none.\<close>

definition call_break :: "api_call \<Rightarrow> int option" where
  "call_break c =
     (case c of
        CreateTimeEntry p \<Rightarrow> Some (p_break_minutes p)
      | UpdateTimeEntry i p \<Rightarrow> Some (p_break_minutes p)
      | CreateEmployeeTimeEntry u p \<Rightarrow> Some (p_break_minutes p)
      | CreateChangeRequest r \<Rightarrow> cr_break_minutes r
      | _ \<Rightarrow> None)"

definition sent_breaks :: "effect list \<Rightarrow> int list" where
  "sent_breaks effs = List.map_filter call_break (calls_of effs)"

text \<open>The admin's entry dialog, opened to add an entry for an employee and to edit one.\<close>

definition admin_add_state :: DailyOverviewState where
  "admin_add_state =
     \<lparr>editModalVisible = True, do_editingEntry = None, editingUser = Some example_user,
      do_selectedDate = 7\<rparr>"

definition admin_edit_state :: DailyOverviewState where
  "admin_edit_state =
     \<lparr>editModalVisible = True, do_editingEntry = Some example_entry,
      editingUser = Some example_user, do_selectedDate = 4\<rparr>"

definition example_request_values :: ChangeRequestFormValues where
  "example_request_values =
     \<lparr>f_request_type = EditRequest, f_time_entry_id = Some 1,
      f_start_time = Some \<lparr>hh = 9, mm = 0, ss = 0\<rparr>, f_end_time = Some \<lparr>hh = 17, mm = 0, ss = 0\<rparr>,
      f_break_minutes = Some 0, f_workplace = Some Office, f_comment = None,
      f_reason = ''left early''\<rparr>"

section \<open>API client (frontend/src/services/api.ts)\<close>

text \<open>A request as the interceptors see it: the \<^verbatim>\<open>Authorization\<close> header, the
  \<^verbatim>\<open>_retry\<close> mark, and the refresh token in the body of a refresh request. An error
  carries \<^verbatim>\<open>error.response?.status\<close> and the detail of the response.\<close>

record http_request =
  url :: string
  authorization :: "string option"
  retry :: bool
  body_refresh_token :: "string option"

record http_error =
  e_status :: "nat option"
  e_detail :: "string option"

text \<open>A response body: the token pair of a login or refresh, or any other data.\<close>

datatype http_data = TokenPair string string | OtherData

type_synonym http_result = "http_error + http_data"

type_synonym server = "http_request \<Rightarrow> http_result"

text \<open>\<^verbatim>\<open>`Bearer ${token}`\<close>\<close>

definition bearer :: "string \<Rightarrow> string" where
  "bearer token = ''Bearer '' @ token"

text \<open>The request interceptor: a stored, non-empty access token becomes the
  \<^verbatim>\<open>Authorization\<close> header.\<close>

definition request_interceptor :: "LocalStorage \<Rightarrow> http_request \<Rightarrow> http_request" where
  "request_interceptor ls config =
     (case access_token ls of
        None \<Rightarrow> config
      | Some token \<Rightarrow>
          if token = [] then config else config\<lparr>authorization := Some (bearer token)\<rparr>)"

text \<open>\<^verbatim>\<open>this.client.post('/auth/refresh', { refresh_token: refreshToken })\<close>\<close>

definition refresh_request :: "string \<Rightarrow> http_request" where
  "refresh_request refreshToken =
     \<lparr>url = ''/auth/refresh'', authorization = None, retry = False,
      body_refresh_token = Some refreshToken\<rparr>"

text \<open>\<^verbatim>\<open>const { access_token, refresh_token } = response.data\<close>; a body without the two
  fields stores the text \<^verbatim>\<open>undefined\<close>.\<close>

definition tokens_of :: "http_data \<Rightarrow> string \<times> string" where
  "tokens_of d = (case d of TokenPair a r \<Rightarrow> (a, r) | OtherData \<Rightarrow> (''undefined'', ''undefined''))"

text \<open>What a call through the client ends with: the local storage, the settled result,
  the requests that reached the server in order, and whether the browser was sent to
  \<^verbatim>\<open>/login\<close>.\<close>

record client_out =
  c_storage :: LocalStorage
  c_result :: http_result
  c_sent :: "http_request list"
  c_redirected :: bool

definition settled :: "LocalStorage \<Rightarrow> http_result \<Rightarrow> http_request list \<Rightarrow> bool \<Rightarrow> client_out" where
  "settled ls res sent redirected =
     \<lparr>c_storage = ls, c_result = res, c_sent = sent, c_redirected = redirected\<rparr>"

text \<open>A request through the axios instance with both interceptors. The refresh request and
  the re-sent request go through the same instance, hence the recursion; the first
  argument bounds its depth, and \<open>None\<close> is a call that has not settled within it.\<close>

fun client :: "nat \<Rightarrow> server \<Rightarrow> LocalStorage \<Rightarrow> http_request \<Rightarrow> client_out option" where
  "client 0 srv ls config = None"
| "client (Suc n) srv ls config =
     (let req = request_interceptor ls config in
      case srv req of
        Inr d \<Rightarrow> Some (settled ls (Inr d) [req] False)
      | Inl err \<Rightarrow>
          if e_status err = Some 401 \<and> \<not> retry req then
            (case refresh_token ls of
               None \<Rightarrow> Some (settled ls (Inl err) [req] False)
             | Some refreshToken \<Rightarrow>
                 if refreshToken = [] then Some (settled ls (Inl err) [req] False)
                 else
                   (case client n srv ls (refresh_request refreshToken) of
                      None \<Rightarrow> None
                    | Some r \<Rightarrow>
                        (case c_result r of
                           Inl refreshError \<Rightarrow>
                             Some (settled (api_logout (c_storage r)) (Inl err)
                                     (req # c_sent r) True)
                         | Inr d \<Rightarrow>
                             (let ls' = (c_storage r)
                                     \<lparr>access_token := Some (fst (tokens_of d)),
                                      refresh_token := Some (snd (tokens_of d))\<rparr>;
                                  originalRequest = req
                                     \<lparr>retry := True,
                                      authorization := Some (bearer (fst (tokens_of d)))\<rparr>
                              in case client n srv ls' originalRequest of
                                   None \<Rightarrow> None
                                 | Some r2 \<Rightarrow>
                                     Some (settled (c_storage r2) (c_result r2)
                                             (req # c_sent r @ c_sent r2)
                                             (c_redirected r \<or> c_redirected r2))))))
          else Some (settled ls (Inl err) [req] False))"

text \<open>A server that accepts the access token \<^verbatim>\<open>a2\<close> only and exchanges the refresh
  token \<^verbatim>\<open>r1\<close> for it.\<close>

definition example_server :: server where
  "example_server r =
     (if url r = ''/auth/refresh'' then
        (if body_refresh_token r = Some ''r1'' then Inr (TokenPair ''a2'' ''r2'')
         else Inl \<lparr>e_status = Some 400, e_detail = None\<rparr>)
      else if authorization r = Some ''Bearer a2'' then Inr OtherData
      else Inl \<lparr>e_status = Some 401, e_detail = Some ''Token expired''\<rparr>)"

definition example_request :: http_request where
  "example_request =
     \<lparr>url = ''/time-entries'', authorization = None, retry = False, body_refresh_token = None\<rparr>"

definition stale_storage :: LocalStorage where
  "stale_storage = \<lparr>access_token = Some ''a1'', refresh_token = Some ''r1''\<rparr>"

section \<open>Vacation forms of the dashboard (frontend/src/pages/DashboardPage.tsx)\<close>

text \<open>The request form holds a date range, the edit form two separate dates. The handlers
  take the API as a function from the request to what it settles with.\<close>

record VacationFormValues =
  vf_dates :: "date \<times> date"
  vf_note :: "string option"

record EditVacationFormValues =
  ev_date_from :: date
  ev_date_to :: date
  ev_note :: "string option"

definition Dashboard_handleCreateVacation ::
  "(api_call \<Rightarrow> unit api_result) \<Rightarrow> DashboardState \<Rightarrow> VacationFormValues
     \<Rightarrow> DashboardState \<times> effect list" where
  "Dashboard_handleCreateVacation api st values =
     (let request = CreateVacation
            \<lparr>date_from = fst (vf_dates values), date_to = snd (vf_dates values),
             vac_note = vf_note values\<rparr>
      in case api request of
           Resolved u \<Rightarrow>
             (st\<lparr>vacationModalVisible := False\<rparr>,
              [Call request, MessageSuccess ''vacation.requestSuccess'', ResetFields, FetchData,
               FetchSchedule])
         | Failed detail \<Rightarrow>
             (st, [Call request, MessageError (detail_or detail ''errors.somethingWentWrong'')]))"

definition Dashboard_handleEditVacation ::
  "(api_call \<Rightarrow> unit api_result) \<Rightarrow> DashboardState \<Rightarrow> EditVacationFormValues
     \<Rightarrow> DashboardState \<times> effect list" where
  "Dashboard_handleEditVacation api st values =
     (case editingVacation st of
        None \<Rightarrow> (st, [])
      | Some vacation_id \<Rightarrow>
          (let request = UpdateVacation vacation_id
                 \<lparr>date_from = ev_date_from values, date_to = ev_date_to values,
                  vac_note = ev_note values\<rparr>
           in case api request of
                Resolved u \<Rightarrow>
                  (st\<lparr>editVacationModalVisible := False, editingVacation := None\<rparr>,
                   [Call request, MessageSuccess ''vacation.updateSuccess'', ResetFields,
                    FetchData, FetchSchedule])
              | Failed detail \<Rightarrow>
                  (st, [Call request,
                        MessageError (detail_or detail ''errors.somethingWentWrong'')])))"

text \<open>Modelled from the spec: the backend's check of a vacation's date range on create and
  on update, which is not under src/. The specification's words: "vacation end date must
  not precede start date".\<close>

definition backend_accepts_vacation :: "VacationCreate \<Rightarrow> bool" where
  "backend_accepts_vacation v = (\<not> date_to v < date_from v)"

text \<open>Modelled from the spec: the backend's answer to a vacation request, accepting it
  exactly when the date range passes the check above; the backend is not under src/.\<close>

definition backend_vacations :: "api_call \<Rightarrow> unit api_result" where
  "backend_vacations c =
     (case c of
        CreateVacation v \<Rightarrow>
          if backend_accepts_vacation v then Resolved ()
          else Failed (Some ''End date must not be before start date'')
      | UpdateVacation i v \<Rightarrow>
          if backend_accepts_vacation v then Resolved ()
          else Failed (Some ''End date must not be before start date'')
      | _ \<Rightarrow> Resolved ())"

text \<open>A handler reports success exactly when its request resolved.\<close>

definition accepted :: "effect list \<Rightarrow> bool" where
  "accepted effs = (\<exists>e \<in> set effs. case e of MessageSuccess m \<Rightarrow> True | _ \<Rightarrow> False)"

definition vacations_sent :: "effect list \<Rightarrow> VacationCreate list" where
  "vacations_sent effs =
     concat (map (\<lambda>c. case c of CreateVacation v \<Rightarrow> [v] | UpdateVacation i v \<Rightarrow> [v] | _ \<Rightarrow> [])
               (calls_of effs))"

definition example_edit_dashboard :: DashboardState where
  "example_edit_dashboard =
     \<lparr>todaySummary = None, d_entryModalVisible = False, vacationModalVisible = False,
      editVacationModalVisible = True, editingVacation = Some 3\<rparr>"

section \<open>Change requests (frontend/src/types, frontend/src/pages/admin/ChangeRequestsPage.tsx)\<close>

text \<open>A change request as the admin page lists it; of its fields the id, the type and the
  status matter here.\<close>

record ChangeRequest =
  req_id :: int
  request_type :: ChangeRequestType
  req_status :: ChangeRequestStatus

record ChangeRequestsPageState =
  requests :: "ChangeRequest list"
  selectedRequest :: "ChangeRequest option"
  resolveModalVisible :: bool
  adminComment :: string
  resolving :: bool

definition ChangeRequests_handleResolve ::
  "(api_call \<Rightarrow> unit api_result) \<Rightarrow> ChangeRequestsPageState \<Rightarrow> bool
     \<Rightarrow> ChangeRequestsPageState \<times> effect list" where
  "ChangeRequests_handleResolve api st approved =
     (case selectedRequest st of
        None \<Rightarrow> (st, [])
      | Some selected \<Rightarrow>
          (let request = ResolveChangeRequest (req_id selected)
                 \<lparr>res_status = (if approved then Approved else Rejected),
                  res_admin_comment = (if adminComment st = [] then None else Some (adminComment st))\<rparr>
           in case api request of
                Resolved u \<Rightarrow>
                  (st\<lparr>resolveModalVisible := False, selectedRequest := None, adminComment := [],
                     resolving := False\<rparr>,
                   [Call request,
                    MessageSuccess (if approved then ''changeRequest.approveSuccess''
                                    else ''changeRequest.rejectSuccess''),
                    FetchRequests])
              | Failed detail \<Rightarrow>
                  (st\<lparr>resolving := False\<rparr>,
                   [Call request, MessageError ''errors.somethingWentWrong''])))"

text \<open>The approve and reject buttons are in the footer of the dialog only while
  \<^verbatim>\<open>selectedRequest?.status === 'pending'\<close>.\<close>

definition resolve_offered :: "ChangeRequestsPageState \<Rightarrow> bool" where
  "resolve_offered st =
     (resolveModalVisible st
      \<and> (case selectedRequest st of None \<Rightarrow> False | Some r \<Rightarrow> req_status r = Pending))"

section \<open>Notification bell (frontend/src/components/NotificationBell.tsx)\<close>

text \<open>The mount effect calls \<^verbatim>\<open>fetchNotifications\<close> and registers it with
  \<^verbatim>\<open>setInterval(..., 60000)\<close>; its cleanup clears the interval. Time passes in
  milliseconds: \<open>bell_since\<close> is the time since the interval was set or last fired, and
  \<open>bell_fetches\<close> counts the calls of \<^verbatim>\<open>fetchNotifications\<close>.\<close>

record BellState =
  bell_interval :: bool
  bell_since :: nat
  bell_fetches :: nat

datatype bell_event = Mount | Elapse nat | Unmount

definition bell_initial :: BellState where
  "bell_initial = \<lparr>bell_interval = False, bell_since = 0, bell_fetches = 0\<rparr>"

fun bell_step :: "BellState \<Rightarrow> bell_event \<Rightarrow> BellState" where
  "bell_step s Mount =
     s\<lparr>bell_interval := True, bell_since := 0, bell_fetches := bell_fetches s + 1\<rparr>"
| "bell_step s (Elapse ms) =
     (if bell_interval s
      then s\<lparr>bell_since := (bell_since s + ms) mod 60000,
             bell_fetches := bell_fetches s + (bell_since s + ms) div 60000\<rparr>
      else s)"
| "bell_step s Unmount = s\<lparr>bell_interval := False\<rparr>"

section \<open>Settings store (frontend/src/store/settingsStore.ts)\<close>

record CompanySettings =
  logo_url :: "string option"
  icon_vacation :: string
  icon_sick :: string
  icon_office :: string
  icon_remote :: string
  icon_holiday :: string
  icon_excused :: string

text \<open>\<^verbatim>\<open>Partial<CompanySettings>\<close>: a field that is absent is \<open>None\<close>.\<close>

record PartialSettings =
  ps_logo_url :: "string option option"
  ps_icon_vacation :: "string option"
  ps_icon_sick :: "string option"
  ps_icon_office :: "string option"
  ps_icon_remote :: "string option"
  ps_icon_holiday :: "string option"
  ps_icon_excused :: "string option"

text \<open>\<^verbatim>\<open>{ ...base, ...over }\<close>\<close>

definition spread :: "CompanySettings \<Rightarrow> PartialSettings \<Rightarrow> CompanySettings" where
  "spread base over =
     \<lparr>logo_url = (case ps_logo_url over of None \<Rightarrow> logo_url base | Some x \<Rightarrow> x),
      icon_vacation = (case ps_icon_vacation over of None \<Rightarrow> icon_vacation base | Some x \<Rightarrow> x),
      icon_sick = (case ps_icon_sick over of None \<Rightarrow> icon_sick base | Some x \<Rightarrow> x),
      icon_office = (case ps_icon_office over of None \<Rightarrow> icon_office base | Some x \<Rightarrow> x),
      icon_remote = (case ps_icon_remote over of None \<Rightarrow> icon_remote base | Some x \<Rightarrow> x),
      icon_holiday = (case ps_icon_holiday over of None \<Rightarrow> icon_holiday base | Some x \<Rightarrow> x),
      icon_excused = (case ps_icon_excused over of None \<Rightarrow> icon_excused base | Some x \<Rightarrow> x)\<rparr>"

definition defaultSettings :: CompanySettings where
  "defaultSettings =
     \<lparr>logo_url = None, icon_vacation = ''Palmtree'', icon_sick = ''Cross'',
      icon_office = ''Building2'', icon_remote = ''Monitor'', icon_holiday = ''Gift'',
      icon_excused = ''CircleCheckBig''\<rparr>"

record SettingsState =
  settings :: CompanySettings
  s_isLoading :: bool
  s_error :: "string option"

definition settings_initial :: SettingsState where
  "settings_initial = \<lparr>settings = defaultSettings, s_isLoading = False, s_error = None\<rparr>"

text \<open>The store together with what the \<^verbatim>\<open>persist\<close> middleware holds in local storage
  under \<^verbatim>\<open>settings-storage\<close>: after every \<^verbatim>\<open>set\<close> it saves
  \<^verbatim>\<open>partialize(state)\<close>, the settings; a newly created store starts from the initial
  state overlaid with what was saved.\<close>

type_synonym settings_world = "SettingsState \<times> CompanySettings option"

definition settings_set :: "(SettingsState \<Rightarrow> SettingsState) \<Rightarrow> settings_world \<Rightarrow> settings_world" where
  "settings_set change w = (let s = change (fst w) in (s, Some (settings s)))"

definition fetchSettings :: "PartialSettings api_result \<Rightarrow> settings_world \<Rightarrow> settings_world" where
  "fetchSettings outcome w =
     (let w1 = settings_set (\<lambda>s. s\<lparr>s_isLoading := True, s_error := None\<rparr>) w
      in case outcome of
           Resolved fetched \<Rightarrow>
             settings_set (\<lambda>s. s\<lparr>settings := spread defaultSettings fetched, s_isLoading := False\<rparr>) w1
         | Failed detail \<Rightarrow>
             settings_set (\<lambda>s. s\<lparr>s_error := Some ''Failed to load settings'', s_isLoading := False\<rparr>) w1)"

definition updateSettings :: "PartialSettings \<Rightarrow> settings_world \<Rightarrow> settings_world" where
  "updateSettings newSettings w =
     settings_set (\<lambda>s. s\<lparr>settings := spread (settings s) newSettings\<rparr>) w"

definition settings_create :: "CompanySettings option \<Rightarrow> settings_world" where
  "settings_create saved =
     (case saved of
        None \<Rightarrow> (settings_initial, None)
      | Some x \<Rightarrow> (settings_initial\<lparr>settings := x\<rparr>, Some x))"

definition company_settings :: PartialSettings where
  "company_settings =
     \<lparr>ps_logo_url = Some (Some ''/uploads/logo.svg''), ps_icon_vacation = Some ''Sun'',
      ps_icon_sick = None, ps_icon_office = None, ps_icon_remote = None, ps_icon_holiday = None,
      ps_icon_excused = None\<rparr>"

section \<open>Verified properties\<close>

subsection \<open>Authentication store\<close>

lemma auth_inv_sets:
  "auth_inv auth_initial"
  "auth_inv s \<Longrightarrow> auth_inv (login_set_pending s)"
  "auth_inv s \<Longrightarrow> auth_inv (login_set_result out s)"
  "auth_inv s \<Longrightarrow> auth_inv (logout_set s)"
  "auth_inv s \<Longrightarrow> auth_inv (checkAuth_set_no_token s)"
  "auth_inv s \<Longrightarrow> auth_inv (checkAuth_set_pending s)"
  "auth_inv s \<Longrightarrow> auth_inv (checkAuth_set_result mo s)"
  "auth_inv s \<Longrightarrow> auth_inv (clearError s)"
  "auth_inv s \<Longrightarrow> auth_inv (auth_rehydrate (auth_partialize s))"
  by (auto simp: auth_inv_def auth_initial_def login_set_pending_def login_set_result_def
      logout_set_def checkAuth_set_no_token_def checkAuth_set_pending_def
      checkAuth_set_result_def clearError_def auth_rehydrate_def auth_partialize_def
      split: login_outcome.splits me_outcome.splits)

lemma auth_reachable_inv: "auth_reachable s \<Longrightarrow> auth_inv s"
  by (induction rule: auth_reachable.induct) (simp_all add: auth_inv_sets)

lemma auth_ops_reachable:
  assumes "auth_reachable s"
  shows "auth_reachable (fst (fst (login out (s, ls))))"
    and "auth_reachable (fst (logout (s, ls)))"
    and "auth_reachable (fst (checkAuth mo (s, ls)))"
    and "auth_reachable (clearError s)"
  using assms
  by (auto simp: login_def logout_def checkAuth_def split: option.splits
      intro: auth_reachable.intros)

text \<open>C10: in every reachable state of the authentication store an authenticated
  session has a user, and login (success or failure), logout, checkAuth (no token, success
  or failure) and clearError each keep it so.\<close>

theorem C10_auth_invariant:
  "(auth_reachable s \<longrightarrow> (isAuthenticated s \<longrightarrow> user s \<noteq> None))
   \<and> (auth_inv s \<longrightarrow>
        auth_inv (fst (fst (login out (s, ls)))) \<and> auth_inv (fst (logout (s, ls)))
        \<and> auth_inv (fst (checkAuth mo (s, ls))) \<and> auth_inv (clearError s))"
proof -
  have "auth_reachable s \<longrightarrow> (isAuthenticated s \<longrightarrow> user s \<noteq> None)"
    using auth_reachable_inv [of s] by (simp add: auth_inv_def)
  moreover have "auth_inv s \<longrightarrow> auth_inv (fst (fst (login out (s, ls))))"
    by (simp add: login_def auth_inv_sets)
  moreover have "auth_inv s \<longrightarrow> auth_inv (fst (logout (s, ls)))"
    by (simp add: logout_def auth_inv_sets)
  moreover have "auth_inv s \<longrightarrow> auth_inv (fst (checkAuth mo (s, ls)))"
    by (simp add: checkAuth_def auth_inv_sets split: option.splits)
  moreover have "auth_inv s \<longrightarrow> auth_inv (clearError s)"
    by (simp add: auth_inv_sets)
  ultimately show ?thesis by blast
qed

theorem C10_auth_invariant_witness:
  "auth_reachable (login_set_result (LoginOk example_user ''t1'' ''t2'') (login_set_pending auth_initial))
   \<and> isAuthenticated (login_set_result (LoginOk example_user ''t1'' ''t2'') (login_set_pending auth_initial))
   \<and> user (login_set_result (LoginOk example_user ''t1'' ''t2'') (login_set_pending auth_initial)) = Some example_user
   \<and> auth_inv auth_initial
   \<and> auth_inv (fst (logout (auth_initial, \<lparr>access_token = None, refresh_token = None\<rparr>)))"
proof -
  let ?s = "login_set_result (LoginOk example_user ''t1'' ''t2'') (login_set_pending auth_initial)"
  have r: "auth_reachable ?s"
    by (intro auth_reachable.intros)
  have i: "auth_inv auth_initial"
    by (simp add: auth_inv_def auth_initial_def)
  have "isAuthenticated ?s \<longrightarrow> user ?s \<noteq> None"
    using r C10_auth_invariant [of ?s] by blast
  moreover have "isAuthenticated ?s" "user ?s = Some example_user"
    by (simp_all add: login_set_result_def login_set_pending_def)
  moreover have "auth_inv (fst (logout (auth_initial, \<lparr>access_token = None, refresh_token = None\<rparr>)))"
    using i C10_auth_invariant [of auth_initial] by blast
  ultimately show ?thesis using r i by blast
qed

subsection \<open>Integers as numbers\<close>

text \<open>An integer of magnitude below \<open>2 ^ 53\<close> is a number, and sums of such integers are
  computed exactly.\<close>

lemma round_half_even_int: "round_half_even (of_int n) = n"
  by (simp add: round_half_even_def)

lemma ilog2_int_bounds:
  assumes "1 \<le> n"
  shows "0 \<le> ilog2 (of_int n)" and "2 ^ nat (ilog2 (of_int n)) \<le> n"
proof -
  have n: "0 < n" using assms by simp
  have e: "ilog2 (of_int n) = bitlen n - 1"
    using assms by (simp add: ilog2_def)
  have b: "1 \<le> bitlen n"
    using n by (simp add: bitlen_alt_def)
  note bb = bitlen_bounds [OF n]
  show "0 \<le> ilog2 (of_int n)" using e b by simp
  show "2 ^ nat (ilog2 (of_int n)) \<le> n" using bb e by simp
qed

lemma rnd_pos_int:
  assumes "1 \<le> n" and "n < 2 ^ 53"
  shows "rnd (of_int n) = Fin (of_int n)"
proof -
  define e where "e = ilog2 (of_int n :: rat)"
  have e0: "0 \<le> e" and lo: "2 ^ nat e \<le> n"
    using ilog2_int_bounds [OF assms(1)] by (simp_all add: e_def)
  have lt: "(2::int) ^ nat e < 2 ^ 53"
    by (rule le_less_trans [OF lo assms(2)])
  have "nat e < 53"
    by (rule power_less_imp_less_exp [OF _ lt]) simp
  then have e52: "e \<le> 52" by simp
  define k where "k = nat (52 - e)"
  have q: "pow2 (e - 52) = 1 / 2 ^ k"
    using e52 by (simp add: pow2_def k_def)
  have quot: "(of_int n :: rat) / pow2 (e - 52) = of_int (n * 2 ^ k)"
    by (simp add: q)
  have prod: "(of_int (n * 2 ^ k) :: rat) * pow2 (e - 52) = of_int n"
    by (simp add: q)
  have m: "max e (- 1022) = e" using e0 by simp
  have ne: "(of_int n :: rat) \<noteq> 0" "\<not> (of_int n :: rat) < 0" "\<bar>of_int n :: rat\<bar> = of_int n"
    using assms(1) by simp_all
  show ?thesis
    unfolding rnd_def Let_def ne(3) e_def [symmetric] m quot round_half_even_int prod
    using ne e52 by simp
qed

lemma rnd_int: "\<bar>n\<bar> < 2 ^ 53 \<Longrightarrow> rnd (of_int n) = Fin (of_int n)"
proof -
  assume a: "\<bar>n\<bar> < 2 ^ 53"
  consider "n = 0" | "1 \<le> n" | "n \<le> - 1" by linarith
  then show ?thesis
  proof cases
    case 1
    then show ?thesis by (simp add: rnd_def)
  next
    case 2
    then show ?thesis using a rnd_pos_int [of n] by simp
  next
    case 3
    then have p: "1 \<le> - n" "- n < 2 ^ 53" using a by simp_all
    have "rnd (of_int (- n)) = Fin (of_int (- n))"
      using rnd_pos_int [OF p] .
    then show ?thesis
      using 3 by (simp add: rnd_def Let_def split: if_splits)
  qed
qed

lemma num_int: "\<bar>i\<bar> < 2 ^ 53 \<Longrightarrow> num i = Fin (of_int i)"
  by (simp add: num_def rnd_int)

lemma dadd_int:
  "\<bar>a + b\<bar> < 2 ^ 53 \<Longrightarrow> dadd (Fin (of_int a)) (Fin (of_int b)) = Fin (of_int (a + b))"
  using rnd_int [of "a + b"] by (simp add: dadd_def)

subsection \<open>Role-gated routes\<close>

lemma admin_route_cases:
  "map_of child_routes key = Some (AdminE p) \<Longrightarrow> key \<noteq> ''/login''"
  by (auto simp: child_routes_def split: if_splits)

lemma match_key_examples:
  "match_key ''/Admin/Employees/'' = ''/admin/employees''
   \<and> match_key ''/ADMIN//'' = ''/admin'' \<and> match_key ''/'' = ''/''
   \<and> match_key ''//'' = ''/'' \<and> match_key ''/admin/settings'' = ''/admin/settings''
   \<and> match_key ''/change-requests'' = ''/change-requests''"
  by code_simp

lemma admin_page_iff:
  "admin_page p \<longleftrightarrow>
     p = AdminDashboard \<or> p = EmployeesPage \<or> p = AdminStatsPage \<or> p = DailyOverviewPage
     \<or> p = AdminCalendarPage \<or> p = SettingsPage \<or> p = ChangeRequestsPage"
  by (auto simp: admin_page_def child_routes_def)

lemma plain_route_pages:
  "map_of child_routes key = Some (PageE p) \<Longrightarrow> \<not> admin_page p"
  by (auto simp: admin_page_iff child_routes_def split: if_splits)

lemma admin_page_shown:
  assumes "App s pathname = Show q" and "admin_page q"
  shows "\<not> isLoading s \<and> isAuthenticated s \<and> (\<exists>u. user s = Some u \<and> role u = Admin)"
proof -
  have nl: "\<not> isLoading s"
    using assms(1) by (auto simp: App_def split: if_splits)
  then have r: "Routes s pathname = Show q"
    using assms(1) by (simp add: App_def)
  then obtain e where e: "map_of child_routes (match_key pathname) = Some e"
    and v: "PrivateRoute s (render_element s e) = Show q"
    by (auto simp: Routes_def Let_def split: if_splits option.splits)
  have au: "isAuthenticated s" and re: "render_element s e = Show q"
    using v nl by (auto simp: PrivateRoute_def split: if_splits)
  show ?thesis
  proof (cases e)
    case (PageE p)
    then have "q = p" using re by (simp add: render_element_def)
    then show ?thesis using plain_route_pages e PageE assms(2) by blast
  next
    case (NavigateE target)
    then show ?thesis using re by (simp add: render_element_def)
  next
    case (AdminE p)
    then have "AdminRoute s (Show p) = Show q"
      using re by (simp add: render_element_def)
    then show ?thesis
      using nl au by (auto simp: AdminRoute_def split: if_splits option.splits)
  qed
qed

lemma admin_route_render:
  assumes "map_of child_routes (match_key pathname) = Some (AdminE p)" and "\<not> isLoading s"
  shows "App s pathname =
           (if \<not> isAuthenticated s then NavigateTo ''/login''
            else if (case user s of None \<Rightarrow> True | Some u \<Rightarrow> role u \<noteq> Admin)
              then NavigateTo ''/''
            else Show p)"
proof -
  have ne: "match_key pathname \<noteq> ''/login''"
    using assms(1) by (rule admin_route_cases)
  show ?thesis
    using assms ne
    by (simp add: App_def Routes_def Let_def PrivateRoute_def render_element_def AdminRoute_def)
qed

text \<open>C4: an admin page is rendered only when the user is authenticated and has the role
  admin, whatever the location. Whenever the routes are rendered at a location that matches
  an admin route, an unauthenticated visitor is redirected to \<^verbatim>\<open>/login\<close>, an
  authenticated user who is not an admin (or has no user record) is redirected to
  \<^verbatim>\<open>/\<close>, and an authenticated admin gets the page of the route. (While the store is
  loading, \<^verbatim>\<open>App\<close> returns the spinner and renders no route at all.)\<close>

theorem C4_admin_routes_gated:
  "(App s anywhere = Show q \<and> admin_page q \<longrightarrow>
      isAuthenticated s \<and> (\<exists>u. user s = Some u \<and> role u = Admin))
   \<and> (map_of child_routes (match_key pathname) = Some (AdminE p) \<and> \<not> isLoading s \<longrightarrow>
        (\<not> isAuthenticated s \<longrightarrow> App s pathname = NavigateTo ''/login'')
        \<and> (isAuthenticated s \<and> (\<forall>u. user s = Some u \<longrightarrow> role u \<noteq> Admin) \<longrightarrow>
              App s pathname = NavigateTo ''/'')
        \<and> (isAuthenticated s \<and> (\<exists>u. user s = Some u \<and> role u = Admin) \<longrightarrow>
              App s pathname = Show p))
   \<and> (isLoading s \<longrightarrow> App s anywhere = Spinner)"
proof (intro conjI impI)
  assume "App s anywhere = Show q \<and> admin_page q"
  then show "isAuthenticated s" and "\<exists>u. user s = Some u \<and> role u = Admin"
    using admin_page_shown [of s anywhere q] by blast+
next
  assume a: "map_of child_routes (match_key pathname) = Some (AdminE p) \<and> \<not> isLoading s"
  note r = admin_route_render [of pathname p s]
  {
    assume "\<not> isAuthenticated s"
    then show "App s pathname = NavigateTo ''/login''"
      using a r by simp
  next
    assume "isAuthenticated s \<and> (\<forall>u. user s = Some u \<longrightarrow> role u \<noteq> Admin)"
    then show "App s pathname = NavigateTo ''/''"
      using a r by (auto split: option.splits)
  next
    assume "isAuthenticated s \<and> (\<exists>u. user s = Some u \<and> role u = Admin)"
    then show "App s pathname = Show p"
      using a r by auto
  }
next
  assume "isLoading s"
  then show "App s anywhere = Spinner"
    by (simp add: App_def)
qed

theorem C4_admin_routes_gated_witness:
  "map_of child_routes (match_key ''/Admin/Employees/'') = Some (AdminE EmployeesPage)
   \<and> \<not> isLoading auth_initial
   \<and> App auth_initial ''/Admin/Employees/'' = NavigateTo ''/login''
   \<and> App (auth_initial\<lparr>user := Some example_user, isAuthenticated := True\<rparr>)
         ''/Admin/Employees/'' = NavigateTo ''/''
   \<and> App (auth_initial\<lparr>user := Some (example_user\<lparr>role := Admin\<rparr>), isAuthenticated := True\<rparr>)
         ''/Admin/Employees/'' = Show EmployeesPage
   \<and> admin_page EmployeesPage
   \<and> isAuthenticated
         (auth_initial\<lparr>user := Some (example_user\<lparr>role := Admin\<rparr>), isAuthenticated := True\<rparr>)
   \<and> App (auth_initial\<lparr>isLoading := True\<rparr>) ''/Admin/Employees/'' = Spinner"
proof -
  let ?path = "''/Admin/Employees/''"
  let ?emp = "auth_initial\<lparr>user := Some example_user, isAuthenticated := True\<rparr>"
  let ?adm = "auth_initial\<lparr>user := Some (example_user\<lparr>role := Admin\<rparr>), isAuthenticated := True\<rparr>"
  have k: "match_key ?path = ''/admin/employees''"
    using match_key_examples by blast
  have h: "map_of child_routes (match_key ?path) = Some (AdminE EmployeesPage)"
    unfolding k by (simp add: child_routes_def)
  have nl: "\<not> isLoading auth_initial" "\<not> isLoading ?emp" "\<not> isLoading ?adm"
    by (simp_all add: auth_initial_def)
  have ap: "admin_page EmployeesPage"
    by (simp add: admin_page_iff)
  have a: "App auth_initial ?path = NavigateTo ''/login''"
    using C4_admin_routes_gated [of auth_initial ?path EmployeesPage ?path EmployeesPage] h nl
    by (simp add: auth_initial_def)
  have b: "App ?emp ?path = NavigateTo ''/''"
    using C4_admin_routes_gated [of ?emp ?path EmployeesPage ?path EmployeesPage] h nl
    by (simp add: example_user_def)
  have c: "App ?adm ?path = Show EmployeesPage"
    using C4_admin_routes_gated [of ?adm ?path EmployeesPage ?path EmployeesPage] h nl
    by simp
  have d: "isAuthenticated ?adm"
    using C4_admin_routes_gated [of ?adm ?path EmployeesPage ?path EmployeesPage] c ap
    by blast
  have e: "App (auth_initial\<lparr>isLoading := True\<rparr>) ?path = Spinner"
    using C4_admin_routes_gated [of "auth_initial\<lparr>isLoading := True\<rparr>" ?path EmployeesPage
        ?path EmployeesPage]
    by simp
  show ?thesis
    using h nl(1) a b c ap d e by blast
qed

subsection \<open>Weekly reminder walk\<close>

lemma findMissing_set:
  "set (findMissing c s e weekEnd cur m) =
     set m \<union> {d. cur \<le> d \<and> d \<le> weekEnd \<and> day d \<noteq> 0 \<and> day d \<noteq> 6
                \<and> \<not> is_holiday (c d) \<and> \<not> is_absence (s d) \<and> e d = None}"
proof (induction c s e weekEnd cur m rule: findMissing.induct)
  case (1 c s e weekEnd cur m)
  let ?P = "\<lambda>d. day d \<noteq> 0 \<and> day d \<noteq> 6 \<and> \<not> is_holiday (c d) \<and> \<not> is_absence (s d)
              \<and> e d = None"
  have split: "{d. cur \<le> d \<and> d \<le> weekEnd \<and> ?P d} =
      (if weekEnd < cur then {}
       else (if ?P cur then {cur} else {}) \<union> {d. cur + 1 \<le> d \<and> d \<le> weekEnd \<and> ?P d})"
    by (auto simp: order_le_less)
  show ?case
    apply (subst findMissing.simps)
    apply (subst split)
    using 1 by auto
qed

lemma entriesMap_fold:
  "fold (\<lambda>e m. m(te_date e \<mapsto> True)) es m0 d = None
     \<longleftrightarrow> m0 d = None \<and> d \<notin> te_date ` set es"
  by (induction es arbitrary: m0) auto

lemma entriesMap_of_None: "entriesMap_of es d = None \<longleftrightarrow> d \<notin> te_date ` set es"
  by (simp add: entriesMap_of_def entriesMap_fold)

lemma startOf_isoWeek_monday:
  "day (startOf_isoWeek t) = 1 \<and> startOf_isoWeek t \<le> t \<and> t \<le> startOf_isoWeek t + 6"
  unfolding startOf_isoWeek_def isoWeekday_def day_def by presburger

lemma weekly_missing_iff:
  "d \<in> set (weekly_missing today cal es sts) \<longleftrightarrow>
     startOf_isoWeek today \<le> d \<and> d \<le> startOf_isoWeek today + 4
     \<and> day d \<noteq> 0 \<and> day d \<noteq> 6
     \<and> \<not> is_holiday (calendarMap_of cal d)
     \<and> \<not> is_absence (statusMap_of sts d)
     \<and> d \<notin> te_date ` set es"
  by (simp add: weekly_missing_def Let_def findMissing_set entriesMap_of_None)

lemma weekly_example:
  "weekly_missing 6 example_calendar [example_entry] example_statuses = [7, 8]"
  by code_simp

text \<open>Over the calendar, statuses and entries that were fetched: a day is listed exactly
  when it lies between the Monday and the Friday of today's ISO week, is neither Saturday
  nor Sunday, is not a holiday in the fetched calendar, has no sick, vacation or excused
  status in the fetched statuses, and no fetched time entry carries its date; the dialog
  opens exactly when the list is not empty, on its first day. For an admin the check only
  marks itself done.\<close>

lemma weekly_walk_over_fetched_data:
  assumes "\<not> weeklyReminderChecked st" and "\<not> weeklyReminderVisible st"
  shows "(\<forall>u. usr = Some u \<and> role u = Admin \<longrightarrow>
            checkWeeklyEntries usr today fetch st = (st\<lparr>weeklyReminderChecked := True\<rparr>, []))
       \<and> ((\<forall>u. usr = Some u \<longrightarrow> role u \<noteq> Admin) \<longrightarrow>
            (d \<in> set (weekly_missing today cal es sts) \<longleftrightarrow>
               startOf_isoWeek today \<le> d \<and> d \<le> startOf_isoWeek today + 4
               \<and> day d \<noteq> 0 \<and> day d \<noteq> 6
               \<and> \<not> is_holiday (calendarMap_of cal d)
               \<and> \<not> is_absence (statusMap_of sts d)
               \<and> d \<notin> te_date ` set es)
          \<and> (weeklyReminderVisible (fst (checkWeeklyEntries usr today (Fetched cal es sts) st))
               \<longleftrightarrow> weekly_missing today cal es sts \<noteq> [])
          \<and> (weekly_missing today cal es sts \<noteq> [] \<longrightarrow>
               missingDays (fst (checkWeeklyEntries usr today (Fetched cal es sts) st))
                 = weekly_missing today cal es sts
               \<and> currentFillingDay (fst (checkWeeklyEntries usr today (Fetched cal es sts) st))
                 = Some (hd (weekly_missing today cal es sts))))"
proof -
  have admin: "\<forall>u. usr = Some u \<and> role u = Admin \<longrightarrow>
            checkWeeklyEntries usr today fetch st = (st\<lparr>weeklyReminderChecked := True\<rparr>, [])"
    using assms by (simp add: checkWeeklyEntries_def)
  have vis: "(weeklyReminderVisible (fst (checkWeeklyEntries usr today (Fetched cal es sts) st))
               \<longleftrightarrow> weekly_missing today cal es sts \<noteq> [])
      \<and> (weekly_missing today cal es sts \<noteq> [] \<longrightarrow>
               missingDays (fst (checkWeeklyEntries usr today (Fetched cal es sts) st))
                 = weekly_missing today cal es sts
               \<and> currentFillingDay (fst (checkWeeklyEntries usr today (Fetched cal es sts) st))
                 = Some (hd (weekly_missing today cal es sts)))"
    if na: "\<forall>u. usr = Some u \<longrightarrow> role u \<noteq> Admin"
  proof -
    have c: "\<not> (case usr of None \<Rightarrow> False | Some u \<Rightarrow> role u = Admin)"
      using na by (simp split: option.splits)
    show ?thesis
      using assms c
      by (cases "weekly_missing today cal es sts") (simp_all add: checkWeeklyEntries_def Let_def)
  qed
  note iff = weekly_missing_iff [of d today cal es sts]
  show ?thesis
    apply (intro conjI impI)
    using admin apply simp
    using iff apply simp
    using vis apply simp
    using vis apply simp
    using vis apply simp
    done
qed

lemma turn_of_year:
  "year 20088 = 2024 \<and> month 20088 + 1 = 12 \<and> civil 20088 = (2024, 12, 31)
   \<and> civil 20089 = (2025, 1, 1) \<and> civil 20058 = (2024, 12, 1) \<and> civil 20119 = (2025, 1, 31)
   \<and> civil 0 = (1970, 1, 1) \<and> civil 19813 = (2024, 3, 31) \<and> civil 20023 = (2024, 10, 27)
   \<and> civil 19782 = (2024, 2, 29) \<and> civil (- 1) = (1969, 12, 31)"
  by code_simp

text \<open>C2 fails in a week that crosses a month: the walk covers Monday to Friday of the
  week, but the calendar is requested for the month of today only, so a holiday of the
  week that falls in the other month is not known to the walk and its day is listed as
  missing. On Tuesday 2024-12-31 (day 20088) the only calendar request is for December
  2024; Wednesday 2025-01-01 (day 20089), a holiday in the calendar of January 2025, is
  listed, while the holiday 2024-12-31 is not.\<close>

theorem C2_holiday_in_other_month_listed:
  "startOf_isoWeek 20088 = 20087 \<and> role example_user = Employee
   \<and> snd (checkWeeklyEntries (Some example_user) 20088
            (Fetched (calendar_service 2024 12) [] []) weekly_initial)
       = [GetCalendarMonth 2024 12, GetTimeEntries 20087 20091, GetDayStatuses 20087 20091]
   \<and> missingDays (fst (checkWeeklyEntries (Some example_user) 20088
            (Fetched (calendar_service 2024 12) [] []) weekly_initial))
       = [20087, 20089, 20090, 20091]
   \<and> weeklyReminderVisible (fst (checkWeeklyEntries (Some example_user) 20088
            (Fetched (calendar_service 2024 12) [] []) weekly_initial))
   \<and> civil 20089 = (2025, 1, 1)
   \<and> is_holiday (calendarMap_of (calendar_service 2025 1) 20089)
   \<and> calendarMap_of (calendar_service 2024 12) 20089 = None"
  by code_simp

subsection \<open>Day totals of the admin daily overview\<close>

text \<open>Where the wall clock does not change, the overview's total of the night entry is its
  eight hours.\<close>

lemma night_entry_utc: "dailyTotalHours utc [night_entry] = Fin 8"
  by code_simp

text \<open>The zone matters only through a change of its offset between the start and the end
  of an entry: with the same offset at both (and instants within the range of exact
  integers) the hours of the entry are those computed in UTC.\<close>

lemma entry_hours_same_offset:
  assumes "zone (wall_ms (te_date e) (start_time e)) = zone (wall_ms (te_date e) (end_time e))"
    and "\<bar>wall_ms (te_date e) (start_time e)\<bar> < 2 ^ 53"
    and "\<bar>wall_ms (te_date e) (end_time e)\<bar> < 2 ^ 53"
    and "\<bar>dayjs_ms zone (te_date e) (start_time e)\<bar> < 2 ^ 53"
    and "\<bar>dayjs_ms zone (te_date e) (end_time e)\<bar> < 2 ^ 53"
  shows "entry_hours zone e = entry_hours utc e"
proof -
  have d: "dayjs_ms zone (te_date e) (end_time e) - dayjs_ms zone (te_date e) (start_time e)
           = dayjs_ms utc (te_date e) (end_time e) - dayjs_ms utc (te_date e) (start_time e)"
    using assms(1) by (simp add: dayjs_ms_def utc_def Let_def)
  have u: "\<bar>dayjs_ms utc (te_date e) (start_time e)\<bar> < 2 ^ 53"
    "\<bar>dayjs_ms utc (te_date e) (end_time e)\<bar> < 2 ^ 53"
    using assms(2,3) by (simp_all add: dayjs_ms_def utc_def Let_def)
  have sub: "dsub (num a) (num b) = rnd (of_int (a - b))"
    if "\<bar>a\<bar> < 2 ^ 53" and "\<bar>b\<bar> < 2 ^ 53" for a b
    using that by (simp add: dsub_def dneg_def dadd_def num_int)
  have "diff_hours (dayjs_ms zone (te_date e) (end_time e)) (dayjs_ms zone (te_date e) (start_time e))
        = diff_hours (dayjs_ms utc (te_date e) (end_time e)) (dayjs_ms utc (te_date e) (start_time e))"
    unfolding diff_hours_def sub [OF assms(5,4)] sub [OF u(2,1)] d ..
  then show ?thesis
    by (simp add: entry_hours_def Let_def)
qed

text \<open>The totals are sums of rounded numbers: the total of the long entry is the number
  written \<^verbatim>\<open>7.333333333333334\<close>, one step above the number nearest to 22/3.\<close>

lemma long_entry_total:
  "dailyTotalHours utc [long_entry] = json_number (7333333333333334 / 10 ^ 15)
   \<and> spec_day_total [long_entry] = 22 / 3
   \<and> rnd (22 / 3) = json_number (7333333333333333 / 10 ^ 15)
   \<and> json_number (7333333333333334 / 10 ^ 15) \<noteq> json_number (7333333333333333 / 10 ^ 15)"
  by code_simp

text \<open>C1 fails in the admin daily overview: the day's total is taken between the instants
  that the browser's zone gives to the start and end times, not between the times
  themselves. In Europe/Riga the entry of 2024-03-31 from 02:00 to 11:00 with a break of 60
  minutes, eight hours by end minus start minus break, is shown with a total of seven
  hours, because the wall clock is put forward by an hour at 03:00.\<close>

theorem C1_overview_total_on_clock_change:
  "spec_day_total [night_entry] = 8
   \<and> dailyTotalHours europe_riga_2024 [night_entry] = Fin 7"
  by code_simp

subsection \<open>The daily cap of 480 minutes\<close>

lemma set_remove_first: "set (remove_first d xs) \<subseteq> set xs"
  by (induction xs) auto

lemma weekly_inv_check:
  "weekly_inv (weekly_missing today cal es sts)
     (fst (checkWeeklyEntries usr today (Fetched cal es sts) weekly_initial))"
  by (cases "weekly_missing today cal es sts")
     (auto simp: weekly_inv_def checkWeeklyEntries_def weekly_initial_def Let_def)

lemma weekly_inv_submit:
  assumes "weekly_inv listed st"
  shows "weekly_inv listed (fst (Calendar_handleWeeklyEntrySubmit out st values))"
proof (cases "currentFillingDay st")
  case None
  then show ?thesis using assms by (simp add: Calendar_handleWeeklyEntrySubmit_def)
next
  case (Some filling)
  have sub: "set (remove_first filling (missingDays st)) \<subseteq> set listed"
    using assms set_remove_first [of filling "missingDays st"] by (auto simp: weekly_inv_def)
  show ?thesis
  proof (cases "remove_first filling (missingDays st)")
    case Nil
    then show ?thesis using assms Some
      by (cases out) (auto simp: weekly_inv_def Calendar_handleWeeklyEntrySubmit_def Let_def)
  next
    case (Cons d ds)
    then show ?thesis using assms Some sub
      by (cases out) (auto simp: weekly_inv_def Calendar_handleWeeklyEntrySubmit_def Let_def)
  qed
qed

lemma weekly_inv_skip:
  assumes "weekly_inv listed st"
  shows "weekly_inv listed (fst (Calendar_handleSkipDay st))"
proof (cases "currentFillingDay st")
  case None
  then show ?thesis using assms by (simp add: Calendar_handleSkipDay_def)
next
  case (Some filling)
  have sub: "set (remove_first filling (missingDays st)) \<subseteq> set listed"
    using assms set_remove_first [of filling "missingDays st"] by (auto simp: weekly_inv_def)
  show ?thesis
    using assms Some sub
    by (cases "remove_first filling (missingDays st)")
       (auto simp: weekly_inv_def Calendar_handleSkipDay_def)
qed

lemma weekly_reachable_inv:
  "weekly_reachable today cal es sts st \<Longrightarrow> weekly_inv (weekly_missing today cal es sts) st"
proof (induction rule: weekly_reachable.induct)
  case (w_checked usr)
  show ?case by (rule weekly_inv_check)
next
  case (w_submitted st out vals)
  then show ?case by (simp add: weekly_inv_submit)
next
  case (w_skipped st)
  then show ?case by (simp add: weekly_inv_skip)
next
  case (w_closed st)
  then show ?case by (simp add: weekly_inv_def)
qed

lemma weekly_filling_no_entries:
  assumes "weekly_reachable today cal es sts st" and "currentFillingDay st = Some filling"
  shows "filter (\<lambda>e. te_date e = filling) es = []"
proof -
  have "filling \<in> set (weekly_missing today cal es sts)"
    using weekly_reachable_inv [OF assms(1)] assms(2) by (simp add: weekly_inv_def)
  then have "filling \<notin> te_date ` set es"
    by (simp add: weekly_missing_iff)
  then show "filter (\<lambda>e. te_date e = filling) es = []"
    by (auto simp: filter_empty_conv)
qed

lemma findMissing_distinct:
  "distinct m \<Longrightarrow> \<forall>x \<in> set m. x < cur \<Longrightarrow> distinct (findMissing c s e weekEnd cur m)"
proof (induction c s e weekEnd cur m rule: findMissing.induct)
  case (1 c s e weekEnd cur m)
  have less: "\<forall>x \<in> set m. x < cur + 1"
    using "1.prems"(2) by auto
  have app: "distinct (m @ [cur])" "\<forall>x \<in> set (m @ [cur]). x < cur + 1"
    using "1.prems" by auto
  show ?case
    apply (subst findMissing.simps)
    using 1 less app by (simp del: distinct_append)
qed

lemma weekly_missing_distinct: "distinct (weekly_missing today cal es sts)"
  by (simp add: weekly_missing_def Let_def findMissing_distinct)

lemma remove_first_hd: "xs \<noteq> [] \<Longrightarrow> remove_first (hd xs) xs = tl xs"
  by (cases xs) simp_all

lemma distinct_remove_first: "distinct xs \<Longrightarrow> distinct (remove_first d xs)"
  using set_remove_first [of d] by (induction xs) auto

lemma weekly_order_check:
  "weekly_order (fst (checkWeeklyEntries usr today (Fetched cal es sts) weekly_initial))"
  using weekly_missing_distinct [of today cal es sts]
  by (cases "weekly_missing today cal es sts")
     (auto simp: weekly_order_def checkWeeklyEntries_def weekly_initial_def Let_def)

lemma weekly_order_submit:
  assumes "weekly_order st"
  shows "weekly_order (fst (Calendar_handleWeeklyEntrySubmit out st vals))"
proof (cases "currentFillingDay st")
  case None
  then show ?thesis using assms by (simp add: Calendar_handleWeeklyEntrySubmit_def)
next
  case (Some filling)
  then have ne: "missingDays st \<noteq> []" and hd: "hd (missingDays st) = filling"
    and d: "distinct (missingDays st)"
    using assms by (simp_all add: weekly_order_def)
  have r: "remove_first filling (missingDays st) = tl (missingDays st)"
    using remove_first_hd [OF ne] hd by simp
  have dt: "distinct (tl (missingDays st))"
    using d by (simp add: distinct_tl)
  show ?thesis
  proof (cases "tl (missingDays st)")
    case Nil
    then show ?thesis using assms Some r
      by (cases out) (auto simp: weekly_order_def Calendar_handleWeeklyEntrySubmit_def Let_def)
  next
    case (Cons x xs)
    then show ?thesis using assms Some r dt
      by (cases out) (auto simp: weekly_order_def Calendar_handleWeeklyEntrySubmit_def Let_def)
  qed
qed

lemma weekly_order_skip:
  assumes "weekly_order st"
  shows "weekly_order (fst (Calendar_handleSkipDay st))"
proof (cases "currentFillingDay st")
  case None
  then show ?thesis using assms by (simp add: Calendar_handleSkipDay_def)
next
  case (Some filling)
  then have ne: "missingDays st \<noteq> []" and hd: "hd (missingDays st) = filling"
    and d: "distinct (missingDays st)"
    using assms by (simp_all add: weekly_order_def)
  have r: "remove_first filling (missingDays st) = tl (missingDays st)"
    using remove_first_hd [OF ne] hd by simp
  have dt: "distinct (tl (missingDays st))"
    using d by (simp add: distinct_tl)
  show ?thesis
    using assms Some r dt
    by (cases "tl (missingDays st)") (auto simp: weekly_order_def Calendar_handleSkipDay_def)
qed

lemma weekly_reachable_order:
  "weekly_reachable today cal es sts st \<Longrightarrow> weekly_order st"
proof (induction rule: weekly_reachable.induct)
  case (w_checked usr)
  show ?case by (rule weekly_order_check)
next
  case (w_submitted st out vals)
  then show ?case by (simp add: weekly_order_submit)
next
  case (w_skipped st)
  then show ?case by (simp add: weekly_order_skip)
next
  case (w_closed st)
  then show ?case by (simp add: weekly_order_def split: option.splits)
qed

text \<open>A day whose entry was created from the weekly form leaves the list and is not filled
  again; the list only shrinks.\<close>

lemma weekly_submitted_day_gone:
  assumes "weekly_reachable today cal es sts st" and "currentFillingDay st = Some filling"
    and "workMinutes vals 60 \<le> 480"
  shows "filling \<notin> set (missingDays (fst (Calendar_handleWeeklyEntrySubmit (Resolved ()) st vals)))
         \<and> currentFillingDay (fst (Calendar_handleWeeklyEntrySubmit (Resolved ()) st vals))
             \<noteq> Some filling"
proof -
  have o: "weekly_order st" using assms(1) by (rule weekly_reachable_order)
  then have ne: "missingDays st \<noteq> []" and hd: "hd (missingDays st) = filling"
    and d: "distinct (missingDays st)"
    using assms(2) by (simp_all add: weekly_order_def)
  have r: "remove_first filling (missingDays st) = tl (missingDays st)"
    using remove_first_hd [OF ne] hd by simp
  have nt: "filling \<notin> set (tl (missingDays st))"
    using ne hd d by (cases "missingDays st") auto
  show ?thesis
    using assms(2,3) r nt
    by (cases "tl (missingDays st)")
       (auto simp: Calendar_handleWeeklyEntrySubmit_def Let_def not_less)
qed

lemma weekly_listed_shrinks:
  "set (missingDays (fst (Calendar_handleWeeklyEntrySubmit out st vals))) \<subseteq> set (missingDays st)"
  "set (missingDays (fst (Calendar_handleSkipDay st))) \<subseteq> set (missingDays st)"
proof -
  show "set (missingDays (fst (Calendar_handleWeeklyEntrySubmit out st vals))) \<subseteq> set (missingDays st)"
  proof (cases "currentFillingDay st")
    case None
    then show ?thesis by (simp add: Calendar_handleWeeklyEntrySubmit_def)
  next
    case (Some filling)
    then show ?thesis
      using set_remove_first [of filling "missingDays st"]
      by (cases out; cases "remove_first filling (missingDays st)")
         (auto simp: Calendar_handleWeeklyEntrySubmit_def Let_def)
  qed
  show "set (missingDays (fst (Calendar_handleSkipDay st))) \<subseteq> set (missingDays st)"
  proof (cases "currentFillingDay st")
    case None
    then show ?thesis by (simp add: Calendar_handleSkipDay_def)
  next
    case (Some filling)
    then show ?thesis
      using set_remove_first [of filling "missingDays st"]
      by (cases "remove_first filling (missingDays st)")
         (auto simp: Calendar_handleSkipDay_def)
  qed
qed

lemma sends_create_simps:
  "sends_create [] = False"
  "sends_create (Call (CreateTimeEntry p) # effs) = True"
  "sends_create (MessageError m # effs) = sends_create effs"
  by (simp_all add: sends_create_def)

text \<open>What the three forms decide on: the dashboard and the calendar send the request
  exactly when the total they compute is not greater than 480, and otherwise do nothing
  but show the error; the weekly form looks at the new entry alone.\<close>

lemma Dashboard_create_cap:
  "sends_create (snd (Dashboard_handleCreateEntry today out st values)) \<longleftrightarrow>
     \<not> gt (dadd (existingWorkMinutes (todaySummary st))
               (num (workMinutes values (if isFirstEntry (todaySummary st) then 60 else 0))))
          (Fin 480)"
  by (cases out) (simp_all add: Dashboard_handleCreateEntry_def Let_def sends_create_simps)

lemma Dashboard_create_atomic:
  "gt (dadd (existingWorkMinutes (todaySummary st))
         (num (workMinutes values (if isFirstEntry (todaySummary st) then 60 else 0))))
      (Fin 480)
   \<Longrightarrow> Dashboard_handleCreateEntry today out st values
       = (st, [MessageError ''timeEntry.validation.maxHoursDaily''])"
  by (simp add: Dashboard_handleCreateEntry_def Let_def)

lemma Calendar_create_cap:
  "sends_create (snd (Calendar_handleCreateEntry out refreshed st values)) \<longleftrightarrow>
     \<not> gt (dadd (existingWorkMinutes (daySummary st))
               (num (workMinutes values (if isFirstEntry (daySummary st) then 60 else 0))))
          (Fin 480)"
  by (cases out; cases refreshed)
     (simp_all add: Calendar_handleCreateEntry_def Let_def sends_create_simps)

lemma Calendar_create_atomic:
  "gt (dadd (existingWorkMinutes (daySummary st))
         (num (workMinutes values (if isFirstEntry (daySummary st) then 60 else 0))))
      (Fin 480)
   \<Longrightarrow> Calendar_handleCreateEntry out refreshed st values
       = (st, [MessageError ''timeEntry.validation.maxHoursDaily''])"
  by (simp add: Calendar_handleCreateEntry_def Let_def)

lemma Weekly_create_cap:
  assumes "currentFillingDay st = Some filling"
  shows "sends_create (snd (Calendar_handleWeeklyEntrySubmit out st values)) \<longleftrightarrow>
           workMinutes values 60 \<le> 480"
  using assms
  by (cases out; cases "remove_first filling (missingDays st)")
     (simp_all add: Calendar_handleWeeklyEntrySubmit_def Let_def sends_create_simps not_le)

lemma Weekly_create_atomic:
  assumes "currentFillingDay st = Some filling" and "\<not> workMinutes values 60 \<le> 480"
  shows "Calendar_handleWeeklyEntrySubmit out st values
           = (st, [MessageError ''timeEntry.validation.maxHours''])"
  using assms by (simp add: Calendar_handleWeeklyEntrySubmit_def Let_def not_le)

lemma new_spec:
  "workMinutes values (if isFirstEntry summary then 60 else 0)
     = spec_new_minutes values (summary_entries summary)"
  by (simp add: workMinutes_def spec_new_minutes_def isFirstEntry_def summary_entries_def
      split: option.splits)

text \<open>Where every known entry of the day has exact minutes, the forms compute the day's
  existing minutes exactly, and the dashboard and the calendar send the request exactly
  when the existing minutes plus the new entry's minutes do not exceed 480.\<close>

lemma foldl_exact_minutes:
  assumes "\<forall>e \<in> set es. exact_minutes e"
    and "0 \<le> acc" and "acc + spec_existing_minutes es < 2 ^ 53"
  shows "foldl (\<lambda>sum e. dadd sum (dmul (duration_hours e) (Fin 60))) (Fin (of_int acc)) es
           = Fin (of_int (acc + spec_existing_minutes es))"
  using assms
proof (induction es arbitrary: acc)
  case Nil
  then show ?case by (simp add: spec_existing_minutes_def)
next
  case (Cons x xs)
  have x: "0 \<le> spec_entry_minutes x"
    and px: "dmul (duration_hours x) (Fin 60) = Fin (of_int (spec_entry_minutes x))"
    using Cons.prems(1) by (simp_all add: exact_minutes_def)
  have rest: "0 \<le> spec_existing_minutes xs"
    unfolding spec_existing_minutes_def
    using Cons.prems(1) by (intro sum_list_nonneg) (auto simp: exact_minutes_def)
  have tot: "spec_existing_minutes (x # xs) = spec_entry_minutes x + spec_existing_minutes xs"
    by (simp add: spec_existing_minutes_def)
  have small: "\<bar>acc + spec_entry_minutes x\<bar> < 2 ^ 53"
    using Cons.prems(2,3) x rest unfolding tot by linarith
  have step: "dadd (Fin (of_int acc)) (dmul (duration_hours x) (Fin 60))
              = Fin (of_int (acc + spec_entry_minutes x))"
    unfolding px by (rule dadd_int [OF small])
  have ih: "foldl (\<lambda>sum e. dadd sum (dmul (duration_hours e) (Fin 60)))
              (Fin (of_int (acc + spec_entry_minutes x))) xs
            = Fin (of_int (acc + spec_entry_minutes x + spec_existing_minutes xs))"
    using Cons.prems x unfolding tot by (intro Cons.IH) simp_all
  show ?case
    unfolding tot by (simp add: step ih add.assoc del: of_int_add)
qed

lemma existing_exact_minutes:
  assumes "\<forall>e \<in> set (summary_entries summary). exact_minutes e"
    and "spec_existing_minutes (summary_entries summary) < 2 ^ 53"
  shows "existingWorkMinutes summary = Fin (of_int (spec_existing_minutes (summary_entries summary)))"
proof (cases summary)
  case None
  then show ?thesis
    by (simp add: existingWorkMinutes_def summary_entries_def spec_existing_minutes_def)
next
  case (Some s)
  have "foldl (\<lambda>sum e. dadd sum (dmul (duration_hours e) (Fin 60))) (Fin (of_int 0)) (entries s)
        = Fin (of_int (0 + spec_existing_minutes (entries s)))"
    using assms Some by (intro foldl_exact_minutes) (simp_all add: summary_entries_def)
  then show ?thesis
    using Some by (simp add: existingWorkMinutes_def summary_entries_def number_or_zero_def)
qed

lemma total_exact_minutes:
  assumes "\<forall>e \<in> set (summary_entries summary). exact_minutes e"
    and "spec_existing_minutes (summary_entries summary) + \<bar>new\<bar> < 2 ^ 53"
  shows "gt (dadd (existingWorkMinutes summary) (num new)) (Fin 480)
           \<longleftrightarrow> 480 < spec_existing_minutes (summary_entries summary) + new"
proof -
  let ?S = "spec_existing_minutes (summary_entries summary)"
  have nn: "0 \<le> ?S"
    unfolding spec_existing_minutes_def
    using assms(1) by (intro sum_list_nonneg) (auto simp: exact_minutes_def)
  have s: "?S < 2 ^ 53" and n: "\<bar>new\<bar> < 2 ^ 53" and t: "\<bar>?S + new\<bar> < 2 ^ 53"
    using assms(2) nn by linarith+
  have "dadd (existingWorkMinutes summary) (num new) = Fin (of_int (?S + new))"
    unfolding existing_exact_minutes [OF assms(1) s] num_int [OF n] by (rule dadd_int [OF t])
  then show ?thesis
    by (simp add: gt_def del: of_int_add)
qed

lemma Dashboard_cap_exact_minutes:
  assumes "\<forall>e \<in> set (summary_entries (todaySummary st)). exact_minutes e"
    and "spec_existing_minutes (summary_entries (todaySummary st))
           + \<bar>spec_new_minutes values (summary_entries (todaySummary st))\<bar> < 2 ^ 53"
  shows "sends_create (snd (Dashboard_handleCreateEntry today out st values)) \<longleftrightarrow>
           spec_existing_minutes (summary_entries (todaySummary st))
             + spec_new_minutes values (summary_entries (todaySummary st)) \<le> 480"
  unfolding Dashboard_create_cap new_spec total_exact_minutes [OF assms] by linarith

lemma Calendar_cap_exact_minutes:
  assumes "\<forall>e \<in> set (summary_entries (daySummary st)). exact_minutes e"
    and "spec_existing_minutes (summary_entries (daySummary st))
           + \<bar>spec_new_minutes values (summary_entries (daySummary st))\<bar> < 2 ^ 53"
  shows "sends_create (snd (Calendar_handleCreateEntry out refreshed st values)) \<longleftrightarrow>
           spec_existing_minutes (summary_entries (daySummary st))
             + spec_new_minutes values (summary_entries (daySummary st)) \<le> 480"
  unfolding Calendar_create_cap new_spec total_exact_minutes [OF assms] by linarith

text \<open>An entry of whole quarter hours whose \<open>duration_hours\<close> is that number of quarter
  hours has exact minutes; the first entry of the sample day below has not.\<close>

lemma exact_minutes_quarters:
  assumes "duration_hours e = Fin (of_int k / 4)" and "spec_entry_minutes e = 15 * k"
    and "0 \<le> k" and "k < 2 ^ 49"
  shows "exact_minutes e"
proof -
  have "\<bar>15 * k\<bar> < 2 ^ 53"
    using assms(3,4) by simp
  then have "rnd (of_int (15 * k)) = Fin (of_int (15 * k))"
    by (rule rnd_int)
  moreover have "(of_int k :: rat) / 4 * 60 = of_int (15 * k)"
    by simp
  ultimately show ?thesis
    using assms(1,2,3) by (simp add: exact_minutes_def dmul_def)
qed

lemma exact_minutes_examples: "exact_minutes example_entry \<and> \<not> exact_minutes cap_entry_1"
  by code_simp

text \<open>The two entries of the sample day carry the numbers nearest to their hours; the
  minutes the forms compute from them are not whole, and their sum is one step above
  280.\<close>

lemma cap_entries_hours:
  "spec_entry_minutes cap_entry_1 = 31 \<and> spec_entry_minutes cap_entry_2 = 249
   \<and> duration_hours cap_entry_1 = rnd (31 / 60) \<and> duration_hours cap_entry_2 = rnd (249 / 60)
   \<and> total_hours cap_summary = rnd (280 / 60)"
  by code_simp

lemma cap_existing:
  "dmul (duration_hours cap_entry_1) (Fin 60) = Fin (31 + 1 / 2 ^ 48)
   \<and> dmul (duration_hours cap_entry_2) (Fin 60) = Fin (249 + 1 / 2 ^ 45)
   \<and> existingWorkMinutes (Some cap_summary) = Fin (280 + 1 / 2 ^ 44)"
  by code_simp

text \<open>C6 fails at the cap itself: on a day with entries of 31 and 249 minutes, a new entry of
  200 minutes brings the total to exactly 480 minutes, which does not exceed the cap, yet
  the dashboard and the calendar show the error and send no request. The forms compute the
  existing minutes as \<open>duration_hours * 60\<close> in floating point, which gives a total one step
  above 480.\<close>

theorem C6_cap_rejects_total_of_480:
  "spec_existing_minutes (summary_entries (todaySummary cap_dashboard))
     + spec_new_minutes cap_values (summary_entries (todaySummary cap_dashboard)) = 480
   \<and> Dashboard_handleCreateEntry 6 (Resolved ()) cap_dashboard cap_values
       = (cap_dashboard, [MessageError ''timeEntry.validation.maxHoursDaily''])
   \<and> \<not> sends_create (snd (Dashboard_handleCreateEntry 6 (Resolved ()) cap_dashboard cap_values))
   \<and> spec_existing_minutes (summary_entries (daySummary cap_calendar_state))
     + spec_new_minutes cap_values (summary_entries (daySummary cap_calendar_state)) = 480
   \<and> Calendar_handleCreateEntry (Resolved ()) (Resolved cap_summary) cap_calendar_state cap_values
       = (cap_calendar_state, [MessageError ''timeEntry.validation.maxHoursDaily''])
   \<and> \<not> sends_create (snd (Calendar_handleCreateEntry (Resolved ()) (Resolved cap_summary)
            cap_calendar_state cap_values))"
  by code_simp

subsection \<open>Break minutes\<close>

lemma or_zero_id: "or_zero x = x"
  by (simp add: or_zero_def)

lemma sent_breaks_simps:
  "sent_breaks [] = []"
  "sent_breaks (Call c # effs) = (case call_break c of None \<Rightarrow> sent_breaks effs | Some b \<Rightarrow> b # sent_breaks effs)"
  "sent_breaks (MessageError m # effs) = sent_breaks effs"
  "sent_breaks (MessageSuccess m # effs) = sent_breaks effs"
  "sent_breaks (MessageSuccessDay d m # effs) = sent_breaks effs"
  "sent_breaks (ResetFields # effs) = sent_breaks effs"
  "sent_breaks (FetchData # effs) = sent_breaks effs"
  "sent_breaks (FetchMonthData # effs) = sent_breaks effs"
  "sent_breaks (FetchDailyData # effs) = sent_breaks effs"
  "sent_breaks (ConfirmRequestChange e a # effs) = sent_breaks effs"
  "sent_breaks (ConfirmDirectDelete e # effs) = sent_breaks effs"
  by (simp_all add: sent_breaks_def calls_of_def List.map_filter_simps split: option.splits)

lemma sent_breaks_append: "sent_breaks (xs @ ys) = sent_breaks xs @ sent_breaks ys"
  by (simp add: sent_breaks_def calls_of_def List.map_filter_def)

lemma call_break_simps:
  "call_break (CreateTimeEntry p) = Some (p_break_minutes p)"
  "call_break (UpdateTimeEntry i p) = Some (p_break_minutes p)"
  "call_break (CreateEmployeeTimeEntry u p) = Some (p_break_minutes p)"
  "call_break (CreateChangeRequest r) = cr_break_minutes r"
  "call_break (GetDaySummary d) = None"
  "call_break (DeleteTimeEntry i) = None"
  by (simp_all add: call_break_def)

lemma Dashboard_breaks:
  "sent_breaks (snd (Dashboard_handleCreateEntry today out st values)) =
     (if sends_create (snd (Dashboard_handleCreateEntry today out st values))
      then [if summary_entries (todaySummary st) = [] then 60 else 0] else [])"
  by (cases out)
     (simp_all add: Dashboard_handleCreateEntry_def Let_def sent_breaks_simps call_break_simps
        sends_create_simps isFirstEntry_def summary_entries_def split: option.splits)

lemma Calendar_breaks:
  "sent_breaks (snd (Calendar_handleCreateEntry out refreshed st values)) =
     (if sends_create (snd (Calendar_handleCreateEntry out refreshed st values))
      then [if summary_entries (daySummary st) = [] then 60 else 0] else [])"
  by (cases out; cases refreshed)
     (simp_all add: Calendar_handleCreateEntry_def Let_def sent_breaks_simps call_break_simps
        sends_create_simps isFirstEntry_def summary_entries_def split: option.splits)

lemma Weekly_breaks:
  "sent_breaks (snd (Calendar_handleWeeklyEntrySubmit out st values)) =
     (if sends_create (snd (Calendar_handleWeeklyEntrySubmit out st values)) then [60] else [])"
proof (cases "currentFillingDay st")
  case None
  then show ?thesis
    by (simp add: Calendar_handleWeeklyEntrySubmit_def sent_breaks_simps sends_create_simps)
next
  case (Some filling)
  then show ?thesis
    by (cases out; cases "remove_first filling (missingDays st)")
       (simp_all add: Calendar_handleWeeklyEntrySubmit_def Let_def sent_breaks_simps
          call_break_simps sends_create_simps)
qed

lemma showEditTimeExpiredModal_breaks:
  "showEditTimeExpiredModal usr entry action st = (st', effs) \<Longrightarrow> sent_breaks effs = []"
  by (cases action) (auto simp: showEditTimeExpiredModal_def sent_breaks_simps split: if_splits)

lemma Edit_breaks:
  assumes "editingEntry st = Some editing"
  shows "sent_breaks (snd (Calendar_handleEditEntry usr out refreshed st values)) =
           (if workMinutes values (break_minutes editing) > 480 then []
            else [break_minutes editing])"
  using assms
  by (cases out; cases refreshed)
     (auto simp: Calendar_handleEditEntry_def Let_def sent_breaks_simps call_break_simps
        sent_breaks_append split: prod.splits dest: showEditTimeExpiredModal_breaks)

lemma ChangeRequest_breaks:
  "sent_breaks (snd (Calendar_handleCreateChangeRequest out st rv)) =
     (case f_request_type rv of
        AddRequest \<Rightarrow> [if summary_entries (daySummary st) = [] then 60 else 0]
      | EditRequest \<Rightarrow>
          [case find (\<lambda>e. Some (te_id e) = f_time_entry_id rv) (summary_entries (daySummary st)) of
             None \<Rightarrow> 60 | Some e \<Rightarrow> break_minutes e]
      | DeleteRequest \<Rightarrow> (case f_break_minutes rv of None \<Rightarrow> [] | Some b \<Rightarrow> [b]))"
  by (cases out; cases "f_request_type rv"; cases "daySummary st")
     (simp_all add: Calendar_handleCreateChangeRequest_def Let_def sent_breaks_simps
        call_break_simps changeRequest_breakMins_def summary_entries_def split: option.splits)

lemma DailyOverview_breaks:
  assumes "editingUser st = Some employee"
  shows "sent_breaks (snd (DailyOverview_handleSaveEntry out st values)) =
           [case v_break_minutes values of None \<Rightarrow> 0 | Some b \<Rightarrow> b]"
  using assms
  by (cases out; cases "do_editingEntry st")
     (simp_all add: DailyOverview_handleSaveEntry_def Let_def sent_breaks_simps
        call_break_simps or_zero_id split: option.splits)

text \<open>C7, as the code has it: a creation from the dashboard or the calendar carries 60 when
  the loaded day summary has no entry and 0 otherwise; the weekly form always carries 60,
  and its day has no fetched entry; an edit from the calendar carries the break of the entry
  being edited; a change request carries 60 or 0 by the same rule when it adds, and the
  break of the chosen entry of the day summary when it edits (60 when the summary has no
  entry with that id). The admin's daily overview sends the break typed into its form (0
  when empty), for a new entry and for an edited one.\<close>

theorem C7_break_minutes:
  "sent_breaks (snd (Dashboard_handleCreateEntry today out dst values)) =
     (if sends_create (snd (Dashboard_handleCreateEntry today out dst values))
      then [if summary_entries (todaySummary dst) = [] then 60 else 0] else [])
   \<and> sent_breaks (snd (Calendar_handleCreateEntry out refreshed cst values)) =
     (if sends_create (snd (Calendar_handleCreateEntry out refreshed cst values))
      then [if summary_entries (daySummary cst) = [] then 60 else 0] else [])
   \<and> sent_breaks (snd (Calendar_handleWeeklyEntrySubmit out wst values)) =
     (if sends_create (snd (Calendar_handleWeeklyEntrySubmit out wst values)) then [60] else [])
   \<and> (weekly_reachable now cal es sts wst \<and> currentFillingDay wst = Some filling \<longrightarrow>
        filter (\<lambda>e. te_date e = filling) es = [])
   \<and> (editingEntry cst = Some editing \<longrightarrow>
        sent_breaks (snd (Calendar_handleEditEntry usr out refreshed cst values)) =
          (if workMinutes values (break_minutes editing) > 480 then []
           else [break_minutes editing]))
   \<and> sent_breaks (snd (Calendar_handleCreateChangeRequest out cst rv)) =
       (case f_request_type rv of
          AddRequest \<Rightarrow> [if summary_entries (daySummary cst) = [] then 60 else 0]
        | EditRequest \<Rightarrow>
            [case find (\<lambda>e. Some (te_id e) = f_time_entry_id rv)
                    (summary_entries (daySummary cst)) of
               None \<Rightarrow> 60 | Some e \<Rightarrow> break_minutes e]
        | DeleteRequest \<Rightarrow> (case f_break_minutes rv of None \<Rightarrow> [] | Some b \<Rightarrow> [b]))
   \<and> (editingUser ast = Some employee \<longrightarrow>
        sent_breaks (snd (DailyOverview_handleSaveEntry out ast values)) =
          [case v_break_minutes values of None \<Rightarrow> 0 | Some b \<Rightarrow> b])"
proof -
  have w: "filter (\<lambda>e. te_date e = filling) es = []"
    if "weekly_reachable now cal es sts wst \<and> currentFillingDay wst = Some filling"
    using that weekly_filling_no_entries [of now cal es sts wst filling] by blast
  show ?thesis
    apply (intro conjI impI)
          apply (rule Dashboard_breaks)
         apply (rule Calendar_breaks)
        apply (rule Weekly_breaks)
       apply (erule w)
      apply (erule Edit_breaks)
     apply (rule ChangeRequest_breaks)
    apply (erule DailyOverview_breaks)
    done
qed

theorem C7_break_minutes_witness:
  "editingEntry (example_calendar_state\<lparr>editingEntry := Some example_entry\<rparr>) = Some example_entry
   \<and> editingUser admin_edit_state = Some example_user
   \<and> sent_breaks (snd (Dashboard_handleCreateEntry 6 (Resolved ()) example_dashboard example_values))
       = [60]
   \<and> sent_breaks (snd (Calendar_handleEditEntry None (Resolved ()) (Failed None)
         (example_calendar_state\<lparr>editingEntry := Some example_entry\<rparr>)
         (example_values\<lparr>v_break_minutes := Some 0\<rparr>))) = [60]
   \<and> sent_breaks (snd (DailyOverview_handleSaveEntry (Resolved ()) admin_edit_state
         (example_values\<lparr>v_break_minutes := Some 15\<rparr>))) = [15]
   \<and> filter (\<lambda>e. te_date e = 7) [example_entry] = []"
proof -
  let ?cst = "example_calendar_state\<lparr>editingEntry := Some example_entry\<rparr>"
  let ?wst = "fst (checkWeeklyEntries (Some example_user) 6
            (Fetched example_calendar [example_entry] example_statuses) weekly_initial)"
  let ?v0 = "example_values\<lparr>v_break_minutes := Some 0\<rparr>"
  let ?v15 = "example_values\<lparr>v_break_minutes := Some 15\<rparr>"
  have e: "editingEntry ?cst = Some example_entry"
    by simp
  have u: "editingUser admin_edit_state = Some example_user"
    by (simp add: admin_edit_state_def)
  have r: "weekly_reachable 6 example_calendar [example_entry] example_statuses ?wst"
    by (rule weekly_reachable.w_checked)
  have f: "currentFillingDay ?wst = Some 7"
    by (simp add: checkWeeklyEntries_def weekly_example example_user_def weekly_initial_def
        Let_def)
  have sc: "sends_create
      (snd (Dashboard_handleCreateEntry 6 (Resolved ()) example_dashboard example_values))"
    by code_simp
  have se: "summary_entries (todaySummary example_dashboard) = []"
    by (simp add: summary_entries_def example_dashboard_def)
  have wm: "\<not> workMinutes ?v0 (break_minutes example_entry) > 480"
    by (simp add: workMinutes_def example_values_def minutes_of_def example_entry_def)
  note t1 = C7_break_minutes [of 6 "Resolved ()" example_dashboard example_values "Failed None"
      ?cst ?wst 6 example_calendar "[example_entry]" example_statuses 7 example_entry None
      example_request_values admin_edit_state example_user]
  note t2 = C7_break_minutes [of 6 "Resolved ()" example_dashboard ?v0 "Failed None"
      ?cst ?wst 6 example_calendar "[example_entry]" example_statuses 7 example_entry None
      example_request_values admin_edit_state example_user]
  note t3 = C7_break_minutes [of 6 "Resolved ()" example_dashboard ?v15 "Failed None"
      ?cst ?wst 6 example_calendar "[example_entry]" example_statuses 7 example_entry None
      example_request_values admin_edit_state example_user]
  have a: "sent_breaks (snd (Dashboard_handleCreateEntry 6 (Resolved ()) example_dashboard
             example_values)) = [60]"
    using t1 sc se by simp
  have b: "sent_breaks (snd (Calendar_handleEditEntry None (Resolved ()) (Failed None) ?cst ?v0))
           = [break_minutes example_entry]"
    using t2 e wm by simp
  have c: "sent_breaks (snd (DailyOverview_handleSaveEntry (Resolved ()) admin_edit_state ?v15))
           = [case v_break_minutes ?v15 of None \<Rightarrow> 0 | Some b \<Rightarrow> b]"
    using t3 u by blast
  have d: "filter (\<lambda>e. te_date e = 7) [example_entry] = []"
    using t1 r f by blast
  have bm: "break_minutes example_entry = 60"
    by (simp add: example_entry_def)
  show ?thesis
    using e u a b c d bm by simp
qed

text \<open>The claim as written fails in the admin's daily overview: a new entry goes out with
  the break typed by the admin, here 30, which is neither 60 nor 0, and an edit changes the
  break of an entry from 60 to 15.\<close>

theorem C7_counterexample:
  "do_editingEntry admin_add_state = None
   \<and> calls_of (snd (DailyOverview_handleSaveEntry (Resolved ()) admin_add_state
        (example_values\<lparr>v_break_minutes := Some 30\<rparr>)))
       = [CreateEmployeeTimeEntry 1
            \<lparr>p_date = Some 7, p_start_time = (9, 0), p_end_time = (18, 0), p_break_minutes = 30,
             p_workplace = Office, p_comment = None\<rparr>]
   \<and> do_editingEntry admin_edit_state = Some example_entry
   \<and> break_minutes example_entry = 60
   \<and> calls_of (snd (DailyOverview_handleSaveEntry (Resolved ()) admin_edit_state
        (example_values\<lparr>v_break_minutes := Some 15\<rparr>)))
       = [UpdateTimeEntry 1
            \<lparr>p_date = Some 4, p_start_time = (9, 0), p_end_time = (18, 0), p_break_minutes = 15,
             p_workplace = Office, p_comment = None\<rparr>]"
  by (simp add: admin_add_state_def admin_edit_state_def DailyOverview_handleSaveEntry_def
      Let_def calls_of_def example_values_def example_user_def example_entry_def format_HHmm_def
      or_zero_def)

subsection \<open>Error handling of the API client and of the entry handlers\<close>

lemma client_example:
  "client 2 example_server stale_storage example_request =
   Some (settled \<lparr>access_token = Some ''a2'', refresh_token = Some ''r2''\<rparr> (Inr OtherData)
           [example_request\<lparr>authorization := Some ''Bearer a1''\<rparr>,
            (refresh_request ''r1'')\<lparr>authorization := Some ''Bearer a1''\<rparr>,
            example_request\<lparr>authorization := Some ''Bearer a2'', retry := True\<rparr>]
           False)"
  by (simp add: numeral_2_eq_2 example_server_def stale_storage_def example_request_def
      request_interceptor_def refresh_request_def tokens_of_def Let_def settled_def bearer_def)

lemma retry_request_interceptor [simp]: "retry (request_interceptor ls config) = retry config"
  by (simp add: request_interceptor_def split: option.splits)

lemma client_ok:
  "srv (request_interceptor ls config) = Inr d \<Longrightarrow>
   client (Suc n) srv ls config = Some (settled ls (Inr d) [request_interceptor ls config] False)"
  by (simp add: Let_def)

lemma client_reject:
  assumes "srv (request_interceptor ls config) = Inl err"
    and "e_status err \<noteq> Some 401 \<or> retry config
         \<or> refresh_token ls = None \<or> refresh_token ls = Some []"
  shows "client (Suc n) srv ls config
           = Some (settled ls (Inl err) [request_interceptor ls config] False)"
  using assms by (auto simp: Let_def split: option.splits)

lemma client_refresh_failed:
  assumes "srv (request_interceptor ls config) = Inl err"
    and "e_status err = Some 401" and "\<not> retry config"
    and "refresh_token ls = Some rt" and "rt \<noteq> []"
    and "srv (request_interceptor ls (refresh_request rt)) = Inl rerr"
    and "e_status rerr \<noteq> Some 401"
  shows "client (Suc (Suc n)) srv ls config
           = Some (settled (api_logout ls) (Inl err)
                     [request_interceptor ls config,
                      request_interceptor ls (refresh_request rt)] True)"
proof -
  have r: "client (Suc n) srv ls (refresh_request rt)
           = Some (settled ls (Inl rerr) [request_interceptor ls (refresh_request rt)] False)"
    using assms(6,7) by (rule client_reject [OF _ disjI1])
  show ?thesis
    using assms(1-5)
    by (subst client.simps) (simp add: Let_def r settled_def del: client.simps)
qed

lemma client_refreshed:
  assumes "srv (request_interceptor ls config) = Inl err"
    and "e_status err = Some 401" and "\<not> retry config"
    and "refresh_token ls = Some rt" and "rt \<noteq> []"
    and "srv (request_interceptor ls (refresh_request rt)) = Inr d"
    and "ls' = ls\<lparr>access_token := Some (fst (tokens_of d)),
                   refresh_token := Some (snd (tokens_of d))\<rparr>"
    and "again = request_interceptor ls'
                   ((request_interceptor ls config)
                      \<lparr>retry := True, authorization := Some (bearer (fst (tokens_of d)))\<rparr>)"
  shows "client (Suc (Suc n)) srv ls config
           = Some (settled ls' (srv again)
                     [request_interceptor ls config,
                      request_interceptor ls (refresh_request rt), again] False)"
proof -
  let ?orig = "(request_interceptor ls config)
                 \<lparr>retry := True, authorization := Some (bearer (fst (tokens_of d)))\<rparr>"
  have r: "client (Suc n) srv ls (refresh_request rt)
           = Some (settled ls (Inr d) [request_interceptor ls (refresh_request rt)] False)"
    using assms(6) by (rule client_ok)
  have r2: "client (Suc n) srv ls' ?orig = Some (settled ls' (srv again) [again] False)"
  proof (cases "srv again")
    case (Inl e2)
    then show ?thesis
      using client_reject [of srv ls' ?orig e2 n] assms(8) by simp
  next
    case (Inr d2)
    then show ?thesis
      using client_ok [of srv ls' ?orig d2 n] assms(8) by simp
  qed
  show ?thesis
    using assms(1-5)
    by (subst client.simps)
       (simp add: Let_def r r2 settled_def assms(7) [symmetric] del: client.simps)
qed

text \<open>A server that answers every request, the refresh included, with 401 keeps the client
  refreshing: the call does not settle within any bound.\<close>

lemma client_refresh_loop:
  assumes "\<And>r. \<exists>err. srv r = Inl err \<and> e_status err = Some 401"
    and "refresh_token ls = Some rt" and "rt \<noteq> []" and "\<not> retry config"
  shows "client n srv ls config = None"
  using assms(4)
proof (induction n arbitrary: config)
  case 0
  show ?case by simp
next
  case (Suc n)
  obtain err where e: "srv (request_interceptor ls config) = Inl err" "e_status err = Some 401"
    using assms(1) by blast
  have "client n srv ls (refresh_request rt) = None"
    by (rule Suc.IH) (simp add: refresh_request_def)
  then show ?case
    using e Suc.prems assms(2,3) by (simp add: Let_def)
qed

lemma delete_other_error:
  "detail \<noteq> Some ''EDIT_TIME_EXPIRED'' \<Longrightarrow>
   Calendar_handleDeleteEntry usr (Failed detail) refreshed st entry
     = (st, [Call (DeleteTimeEntry (te_id entry)), MessageError ''Failed to delete entry''])"
  by (simp add: Calendar_handleDeleteEntry_def)

lemma delete_expired:
  "Calendar_handleDeleteEntry usr (Failed (Some ''EDIT_TIME_EXPIRED'')) refreshed st entry
     = (if (case usr of None \<Rightarrow> False | Some u \<Rightarrow> role u = Admin)
        then (st, [Call (DeleteTimeEntry (te_id entry)), ConfirmDirectDelete entry])
        else (st, [Call (DeleteTimeEntry (te_id entry)), ConfirmRequestChange entry DeleteAction]))"
  by (simp add: Calendar_handleDeleteEntry_def showEditTimeExpiredModal_def)

lemma edit_other_error:
  assumes "editingEntry st = Some editing" and "\<not> workMinutes values (break_minutes editing) > 480"
    and "detail \<noteq> Some ''EDIT_TIME_EXPIRED''"
  shows "\<exists>request. Calendar_handleEditEntry usr (Failed detail) refreshed st values
     = (st, [Call request, MessageError (detail_or detail ''Failed to update entry'')])"
  using assms by (simp add: Calendar_handleEditEntry_def Let_def)

lemma edit_expired:
  assumes "editingEntry st = Some editing" and "\<not> workMinutes values (break_minutes editing) > 480"
    and "\<not> (case usr of None \<Rightarrow> False | Some u \<Rightarrow> role u = Admin)"
  shows "\<exists>request.
     Calendar_handleEditEntry usr (Failed (Some ''EDIT_TIME_EXPIRED'')) refreshed st values
     = (st\<lparr>entryModalVisible := False, editingEntry := None\<rparr>,
        [Call request, ConfirmRequestChange editing EditAction, ResetFields])"
  using assms by (simp add: Calendar_handleEditEntry_def Let_def showEditTimeExpiredModal_def)

text \<open>For an admin whose edit was answered with \<^verbatim>\<open>EDIT_TIME_EXPIRED\<close> the handler opens
  the entry dialog on the entry and then clears the entry and the form again: the dialog
  is left open as an empty form for a new entry.\<close>

lemma edit_expired_admin:
  assumes "editingEntry st = Some editing" and "\<not> workMinutes values (break_minutes editing) > 480"
    and "usr = Some u" and "role u = Admin"
  shows "\<exists>request.
     Calendar_handleEditEntry usr (Failed (Some ''EDIT_TIME_EXPIRED'')) refreshed st values
     = (st\<lparr>entryModalVisible := True, editingEntry := None\<rparr>, [Call request, ResetFields])"
  using assms by (simp add: Calendar_handleEditEntry_def Let_def showEditTimeExpiredModal_def)

text \<open>C5, as the code has it. The API client rejects an error unchanged, with no further
  request, unless its status is 401, the request is not marked as retried and a non-empty
  refresh token is stored; then it posts the refresh: on success it stores the new tokens
  and sends the original request once more, marked as retried, whose outcome is final; on
  a refresh error (other than 401) it removes the tokens, sends the browser to
  \<^verbatim>\<open>/login\<close> and rejects the original error. The calendar's edit and delete handlers
  treat the detail \<^verbatim>\<open>EDIT_TIME_EXPIRED\<close> apart: no error toast, and a user who is not an
  admin is offered a change request; any other detail ends in an error toast.\<close>

theorem C5_error_handling:
  "(srv (request_interceptor ls config) = Inl err
      \<and> (e_status err \<noteq> Some 401 \<or> retry config
          \<or> refresh_token ls = None \<or> refresh_token ls = Some []) \<longrightarrow>
      client (Suc n) srv ls config
        = Some (settled ls (Inl err) [request_interceptor ls config] False))
   \<and> (srv (request_interceptor ls config) = Inl err \<and> e_status err = Some 401
        \<and> \<not> retry config \<and> refresh_token ls = Some rt \<and> rt \<noteq> []
        \<and> srv (request_interceptor ls (refresh_request rt)) = Inr d \<longrightarrow>
      (let ls' = ls\<lparr>access_token := Some (fst (tokens_of d)),
                     refresh_token := Some (snd (tokens_of d))\<rparr>;
           again = request_interceptor ls'
                     ((request_interceptor ls config)
                        \<lparr>retry := True, authorization := Some (bearer (fst (tokens_of d)))\<rparr>)
       in client (Suc (Suc n)) srv ls config
            = Some (settled ls' (srv again)
                      [request_interceptor ls config,
                       request_interceptor ls (refresh_request rt), again] False)))
   \<and> (srv (request_interceptor ls config) = Inl err \<and> e_status err = Some 401
        \<and> \<not> retry config \<and> refresh_token ls = Some rt \<and> rt \<noteq> []
        \<and> srv (request_interceptor ls (refresh_request rt)) = Inl rerr
        \<and> e_status rerr \<noteq> Some 401 \<longrightarrow>
      client (Suc (Suc n)) srv ls config
        = Some (settled (api_logout ls) (Inl err)
                  [request_interceptor ls config,
                   request_interceptor ls (refresh_request rt)] True))
   \<and> (detail \<noteq> Some ''EDIT_TIME_EXPIRED'' \<longrightarrow>
        Calendar_handleDeleteEntry usr (Failed detail) refreshed st entry
          = (st, [Call (DeleteTimeEntry (te_id entry)), MessageError ''Failed to delete entry'']))
   \<and> Calendar_handleDeleteEntry usr (Failed (Some ''EDIT_TIME_EXPIRED'')) refreshed st entry
       = (if (case usr of None \<Rightarrow> False | Some u \<Rightarrow> role u = Admin)
          then (st, [Call (DeleteTimeEntry (te_id entry)), ConfirmDirectDelete entry])
          else (st, [Call (DeleteTimeEntry (te_id entry)),
                     ConfirmRequestChange entry DeleteAction]))
   \<and> (editingEntry st = Some editing \<and> \<not> workMinutes values (break_minutes editing) > 480
        \<and> detail \<noteq> Some ''EDIT_TIME_EXPIRED'' \<longrightarrow>
        (\<exists>request. Calendar_handleEditEntry usr (Failed detail) refreshed st values
           = (st, [Call request, MessageError (detail_or detail ''Failed to update entry'')])))
   \<and> (editingEntry st = Some editing \<and> \<not> workMinutes values (break_minutes editing) > 480
        \<and> \<not> (case usr of None \<Rightarrow> False | Some u \<Rightarrow> role u = Admin) \<longrightarrow>
        (\<exists>request.
           Calendar_handleEditEntry usr (Failed (Some ''EDIT_TIME_EXPIRED'')) refreshed st values
           = (st\<lparr>entryModalVisible := False, editingEntry := None\<rparr>,
              [Call request, ConfirmRequestChange editing EditAction, ResetFields])))"
proof (intro conjI impI)
  assume "srv (request_interceptor ls config) = Inl err
      \<and> (e_status err \<noteq> Some 401 \<or> retry config
          \<or> refresh_token ls = None \<or> refresh_token ls = Some [])"
  then show "client (Suc n) srv ls config
        = Some (settled ls (Inl err) [request_interceptor ls config] False)"
    using client_reject [of srv ls config err n] by blast
next
  assume a: "srv (request_interceptor ls config) = Inl err \<and> e_status err = Some 401
        \<and> \<not> retry config \<and> refresh_token ls = Some rt \<and> rt \<noteq> []
        \<and> srv (request_interceptor ls (refresh_request rt)) = Inr d"
  show "let ls' = ls\<lparr>access_token := Some (fst (tokens_of d)),
                     refresh_token := Some (snd (tokens_of d))\<rparr>;
           again = request_interceptor ls'
                     ((request_interceptor ls config)
                        \<lparr>retry := True, authorization := Some (bearer (fst (tokens_of d)))\<rparr>)
       in client (Suc (Suc n)) srv ls config
            = Some (settled ls' (srv again)
                      [request_interceptor ls config,
                       request_interceptor ls (refresh_request rt), again] False)"
    unfolding Let_def
    using a by (intro client_refreshed [where err = err and rt = rt and d = d]) simp_all
next
  assume "srv (request_interceptor ls config) = Inl err \<and> e_status err = Some 401
        \<and> \<not> retry config \<and> refresh_token ls = Some rt \<and> rt \<noteq> []
        \<and> srv (request_interceptor ls (refresh_request rt)) = Inl rerr
        \<and> e_status rerr \<noteq> Some 401"
  then show "client (Suc (Suc n)) srv ls config
        = Some (settled (api_logout ls) (Inl err)
                  [request_interceptor ls config,
                   request_interceptor ls (refresh_request rt)] True)"
    by (intro client_refresh_failed [where rerr = rerr]) simp_all
next
  assume "detail \<noteq> Some ''EDIT_TIME_EXPIRED''"
  then show "Calendar_handleDeleteEntry usr (Failed detail) refreshed st entry
          = (st, [Call (DeleteTimeEntry (te_id entry)), MessageError ''Failed to delete entry''])"
    by (rule delete_other_error)
next
  show "Calendar_handleDeleteEntry usr (Failed (Some ''EDIT_TIME_EXPIRED'')) refreshed st entry
       = (if (case usr of None \<Rightarrow> False | Some u \<Rightarrow> role u = Admin)
          then (st, [Call (DeleteTimeEntry (te_id entry)), ConfirmDirectDelete entry])
          else (st, [Call (DeleteTimeEntry (te_id entry)),
                     ConfirmRequestChange entry DeleteAction]))"
    by (rule delete_expired)
next
  assume "editingEntry st = Some editing \<and> \<not> workMinutes values (break_minutes editing) > 480
        \<and> detail \<noteq> Some ''EDIT_TIME_EXPIRED''"
  then show "\<exists>request. Calendar_handleEditEntry usr (Failed detail) refreshed st values
           = (st, [Call request, MessageError (detail_or detail ''Failed to update entry'')])"
    using edit_other_error [of st editing "values" detail usr refreshed] by blast
next
  assume "editingEntry st = Some editing \<and> \<not> workMinutes values (break_minutes editing) > 480
        \<and> \<not> (case usr of None \<Rightarrow> False | Some u \<Rightarrow> role u = Admin)"
  then show "\<exists>request.
           Calendar_handleEditEntry usr (Failed (Some ''EDIT_TIME_EXPIRED'')) refreshed st values
           = (st\<lparr>entryModalVisible := False, editingEntry := None\<rparr>,
              [Call request, ConfirmRequestChange editing EditAction, ResetFields])"
    using edit_expired [of st editing "values" usr refreshed] by blast
qed

text \<open>The claim as written fails twice. A request answered with 401 is retried by the client
  after a token refresh and then succeeds; and the detail \<^verbatim>\<open>EDIT_TIME_EXPIRED\<close> is an error
  code of the application, handled apart from every other failure of the same request.\<close>

theorem C5_counterexample:
  "example_server (request_interceptor stale_storage example_request)
     = Inl \<lparr>e_status = Some 401, e_detail = Some ''Token expired''\<rparr>
   \<and> client 2 example_server stale_storage example_request =
       Some (settled \<lparr>access_token = Some ''a2'', refresh_token = Some ''r2''\<rparr> (Inr OtherData)
               [example_request\<lparr>authorization := Some ''Bearer a1''\<rparr>,
                (refresh_request ''r1'')\<lparr>authorization := Some ''Bearer a1''\<rparr>,
                example_request\<lparr>authorization := Some ''Bearer a2'', retry := True\<rparr>]
               False)
   \<and> Calendar_handleDeleteEntry (Some example_user) (Failed (Some ''EDIT_TIME_EXPIRED''))
         (Failed None) example_calendar_state example_entry
       = (example_calendar_state,
          [Call (DeleteTimeEntry 1), ConfirmRequestChange example_entry DeleteAction])
   \<and> Calendar_handleDeleteEntry (Some example_user) (Failed (Some ''Not found''))
         (Failed None) example_calendar_state example_entry
       = (example_calendar_state,
          [Call (DeleteTimeEntry 1), MessageError ''Failed to delete entry''])"
proof -
  have a: "example_server (request_interceptor stale_storage example_request)
     = Inl \<lparr>e_status = Some 401, e_detail = Some ''Token expired''\<rparr>"
    by (simp add: example_server_def request_interceptor_def stale_storage_def
        example_request_def bearer_def)
  have b: "Calendar_handleDeleteEntry (Some example_user) (Failed (Some ''EDIT_TIME_EXPIRED''))
         (Failed None) example_calendar_state example_entry
       = (example_calendar_state,
          [Call (DeleteTimeEntry 1), ConfirmRequestChange example_entry DeleteAction])"
    by (simp add: delete_expired example_user_def) (simp add: example_entry_def)
  have c: "Calendar_handleDeleteEntry (Some example_user) (Failed (Some ''Not found''))
         (Failed None) example_calendar_state example_entry
       = (example_calendar_state,
          [Call (DeleteTimeEntry 1), MessageError ''Failed to delete entry''])"
    by (simp add: delete_other_error) (simp add: example_entry_def)
  show ?thesis
    using a b c client_example by simp
qed

theorem C5_error_handling_witness:
  "example_server (request_interceptor stale_storage example_request)
     = Inl \<lparr>e_status = Some 401, e_detail = Some ''Token expired''\<rparr>
   \<and> refresh_token stale_storage = Some ''r1''
   \<and> example_server (request_interceptor stale_storage (refresh_request ''r1''))
       = Inr (TokenPair ''a2'' ''r2'')
   \<and> c_result (the (client 2 example_server stale_storage example_request)) = Inr OtherData
   \<and> length (c_sent (the (client 2 example_server stale_storage example_request))) = 3
   \<and> client 1 example_server stale_storage (example_request\<lparr>retry := True\<rparr>)
       = Some (settled stale_storage (Inl \<lparr>e_status = Some 401, e_detail = Some ''Token expired''\<rparr>)
                 [request_interceptor stale_storage (example_request\<lparr>retry := True\<rparr>)] False)
   \<and> Calendar_handleDeleteEntry None (Failed (Some ''Not found'')) (Failed None)
         example_calendar_state example_entry
       = (example_calendar_state,
          [Call (DeleteTimeEntry (te_id example_entry)), MessageError ''Failed to delete entry''])"
proof -
  let ?err = "\<lparr>e_status = Some 401, e_detail = Some ''Token expired''\<rparr>"
  let ?d = "TokenPair ''a2'' ''r2''"
  have a: "example_server (request_interceptor stale_storage example_request) = Inl ?err"
    by (simp add: example_server_def request_interceptor_def stale_storage_def
        example_request_def bearer_def)
  have a': "example_server (request_interceptor stale_storage (example_request\<lparr>retry := True\<rparr>))
            = Inl ?err"
    by (simp add: example_server_def request_interceptor_def stale_storage_def
        example_request_def bearer_def)
  have s: "e_status ?err = Some 401" by simp
  have nr: "\<not> retry example_request" by (simp add: example_request_def)
  have yr: "retry (example_request\<lparr>retry := True\<rparr>)" by simp
  have rt: "refresh_token stale_storage = Some ''r1''" by (simp add: stale_storage_def)
  have ne: "''r1'' \<noteq> []" by simp
  have r: "example_server (request_interceptor stale_storage (refresh_request ''r1'')) = Inr ?d"
    by (simp add: example_server_def request_interceptor_def stale_storage_def
        refresh_request_def)
  have nd: "Some ''Not found'' \<noteq> Some ''EDIT_TIME_EXPIRED''" by simp
  note t = C5_error_handling [of example_server stale_storage example_request ?err 0 "''r1''" ?d
      "\<lparr>e_status = Some 400, e_detail = None\<rparr>" "Some ''Not found''" None "Failed None"
      example_calendar_state example_entry example_entry example_values]
  note t' = C5_error_handling [of example_server stale_storage "example_request\<lparr>retry := True\<rparr>"
      ?err 0 "''r1''" ?d "\<lparr>e_status = Some 400, e_detail = None\<rparr>" "Some ''Not found''" None
      "Failed None" example_calendar_state example_entry example_entry example_values]
  have two: "Suc (Suc 0) = 2" and one: "Suc 0 = 1" by simp_all
  have again: "example_server (request_interceptor
          (stale_storage\<lparr>access_token := Some (fst (tokens_of ?d)),
                         refresh_token := Some (snd (tokens_of ?d))\<rparr>)
          ((request_interceptor stale_storage example_request)
             \<lparr>retry := True, authorization := Some (bearer (fst (tokens_of ?d)))\<rparr>))
        = Inr OtherData"
    by (simp add: example_server_def request_interceptor_def stale_storage_def
        example_request_def bearer_def tokens_of_def)
  have c2: "let ls' = stale_storage\<lparr>access_token := Some (fst (tokens_of ?d)),
                         refresh_token := Some (snd (tokens_of ?d))\<rparr>;
           again = request_interceptor ls'
                     ((request_interceptor stale_storage example_request)
                        \<lparr>retry := True, authorization := Some (bearer (fst (tokens_of ?d)))\<rparr>)
       in client 2 example_server stale_storage example_request
            = Some (settled ls' (example_server again)
                      [request_interceptor stale_storage example_request,
                       request_interceptor stale_storage (refresh_request ''r1''), again] False)"
    using t a s nr rt ne r unfolding two by blast
  have res: "c_result (the (client 2 example_server stale_storage example_request)) = Inr OtherData"
    and len: "length (c_sent (the (client 2 example_server stale_storage example_request))) = 3"
    using c2 again by (simp_all add: Let_def settled_def)
  have c1: "client 1 example_server stale_storage (example_request\<lparr>retry := True\<rparr>)
       = Some (settled stale_storage (Inl ?err)
                 [request_interceptor stale_storage (example_request\<lparr>retry := True\<rparr>)] False)"
    using t' a' yr unfolding one by blast
  have del: "Calendar_handleDeleteEntry None (Failed (Some ''Not found'')) (Failed None)
         example_calendar_state example_entry
       = (example_calendar_state,
          [Call (DeleteTimeEntry (te_id example_entry)), MessageError ''Failed to delete entry''])"
    using t nd by blast
  show ?thesis
    using a rt r res len c1 del by blast
qed

subsection \<open>Vacation date range\<close>

lemma create_vacation_sent:
  "vacations_sent (snd (Dashboard_handleCreateVacation api st values))
     = [\<lparr>date_from = fst (vf_dates values), date_to = snd (vf_dates values),
         vac_note = vf_note values\<rparr>]"
  by (simp add: Dashboard_handleCreateVacation_def Let_def vacations_sent_def calls_of_def
      split: api_result.splits)

lemma edit_vacation_sent:
  "editingVacation st = Some i \<Longrightarrow>
   vacations_sent (snd (Dashboard_handleEditVacation api st values))
     = [\<lparr>date_from = ev_date_from values, date_to = ev_date_to values,
         vac_note = ev_note values\<rparr>]"
  by (simp add: Dashboard_handleEditVacation_def Let_def vacations_sent_def calls_of_def
      split: api_result.splits)

lemma create_vacation_accepted:
  "accepted (snd (Dashboard_handleCreateVacation backend_vacations st values))
     \<longleftrightarrow> fst (vf_dates values) \<le> snd (vf_dates values)"
  by (auto simp: Dashboard_handleCreateVacation_def Let_def accepted_def backend_vacations_def
      backend_accepts_vacation_def)

lemma edit_vacation_accepted:
  "accepted (snd (Dashboard_handleEditVacation backend_vacations st values))
     \<longleftrightarrow> editingVacation st \<noteq> None \<and> ev_date_from values \<le> ev_date_to values"
  by (auto simp: Dashboard_handleEditVacation_def Let_def accepted_def backend_vacations_def
      backend_accepts_vacation_def split: option.splits)

text \<open>C3, against the backend check modelled from the specification: a vacation request or
  update that is accepted has an end date not earlier than its start date. The forms
  themselves send their dates as entered; a request that is not accepted leaves the
  dashboard as it was.\<close>

theorem C3_vacation_date_range:
  "(accepted (snd (Dashboard_handleCreateVacation backend_vacations st values)) \<longrightarrow>
      (\<forall>v \<in> set (vacations_sent (snd (Dashboard_handleCreateVacation backend_vacations st values))).
         date_from v \<le> date_to v))
   \<and> (accepted (snd (Dashboard_handleEditVacation backend_vacations st evalues)) \<longrightarrow>
      (\<forall>v \<in> set (vacations_sent (snd (Dashboard_handleEditVacation backend_vacations st evalues))).
         date_from v \<le> date_to v))
   \<and> (\<not> accepted (snd (Dashboard_handleCreateVacation backend_vacations st values)) \<longrightarrow>
        fst (Dashboard_handleCreateVacation backend_vacations st values) = st)
   \<and> (\<not> accepted (snd (Dashboard_handleEditVacation backend_vacations st evalues)) \<longrightarrow>
        fst (Dashboard_handleEditVacation backend_vacations st evalues) = st)"
proof (intro conjI impI)
  assume "accepted (snd (Dashboard_handleCreateVacation backend_vacations st values))"
  then show "\<forall>v \<in> set (vacations_sent (snd (Dashboard_handleCreateVacation backend_vacations st values))).
         date_from v \<le> date_to v"
    by (simp add: create_vacation_accepted create_vacation_sent)
next
  assume a: "accepted (snd (Dashboard_handleEditVacation backend_vacations st evalues))"
  then obtain i where "editingVacation st = Some i" and "ev_date_from evalues \<le> ev_date_to evalues"
    by (auto simp: edit_vacation_accepted)
  then show "\<forall>v \<in> set (vacations_sent (snd (Dashboard_handleEditVacation backend_vacations st evalues))).
         date_from v \<le> date_to v"
    by (simp add: edit_vacation_sent)
next
  assume "\<not> accepted (snd (Dashboard_handleCreateVacation backend_vacations st values))"
  then show "fst (Dashboard_handleCreateVacation backend_vacations st values) = st"
    by (auto simp: Dashboard_handleCreateVacation_def Let_def accepted_def
        split: api_result.splits)
next
  assume "\<not> accepted (snd (Dashboard_handleEditVacation backend_vacations st evalues))"
  then show "fst (Dashboard_handleEditVacation backend_vacations st evalues) = st"
    by (auto simp: Dashboard_handleEditVacation_def Let_def accepted_def
        split: api_result.splits option.splits)
qed

theorem C3_vacation_date_range_witness:
  "accepted (snd (Dashboard_handleEditVacation backend_vacations example_edit_dashboard
       \<lparr>ev_date_from = 10, ev_date_to = 12, ev_note = None\<rparr>))
   \<and> vacations_sent (snd (Dashboard_handleEditVacation backend_vacations example_edit_dashboard
       \<lparr>ev_date_from = 10, ev_date_to = 12, ev_note = None\<rparr>))
       = [\<lparr>date_from = 10, date_to = 12, vac_note = None\<rparr>]
   \<and> accepted (snd (Dashboard_handleCreateVacation backend_vacations example_edit_dashboard
       \<lparr>vf_dates = (10, 10), vf_note = None\<rparr>))
   \<and> \<not> accepted (snd (Dashboard_handleEditVacation backend_vacations example_edit_dashboard
       \<lparr>ev_date_from = 12, ev_date_to = 10, ev_note = None\<rparr>))
   \<and> fst (Dashboard_handleEditVacation backend_vacations example_edit_dashboard
       \<lparr>ev_date_from = 12, ev_date_to = 10, ev_note = None\<rparr>) = example_edit_dashboard
   \<and> vacations_sent (snd (Dashboard_handleEditVacation backend_vacations example_edit_dashboard
       \<lparr>ev_date_from = 12, ev_date_to = 10, ev_note = None\<rparr>))
       = [\<lparr>date_from = 12, date_to = 10, vac_note = None\<rparr>]"
proof -
  let ?good = "\<lparr>ev_date_from = 10, ev_date_to = 12, ev_note = None\<rparr>"
  let ?bad = "\<lparr>ev_date_from = 12, ev_date_to = 10, ev_note = None\<rparr>"
  let ?new = "\<lparr>vf_dates = (10, 10), vf_note = None\<rparr>"
  have ed: "editingVacation example_edit_dashboard = Some 3"
    by (simp add: example_edit_dashboard_def)
  have a1: "accepted (snd (Dashboard_handleEditVacation backend_vacations example_edit_dashboard ?good))"
    by (simp add: edit_vacation_accepted ed)
  have a2: "accepted (snd (Dashboard_handleCreateVacation backend_vacations example_edit_dashboard ?new))"
    by (simp add: create_vacation_accepted)
  have a3: "\<not> accepted (snd (Dashboard_handleEditVacation backend_vacations example_edit_dashboard ?bad))"
    by (simp add: edit_vacation_accepted ed)
  have s1: "vacations_sent (snd (Dashboard_handleEditVacation backend_vacations
              example_edit_dashboard ?good)) = [\<lparr>date_from = 10, date_to = 12, vac_note = None\<rparr>]"
    and s3: "vacations_sent (snd (Dashboard_handleEditVacation backend_vacations
              example_edit_dashboard ?bad)) = [\<lparr>date_from = 12, date_to = 10, vac_note = None\<rparr>]"
    by (simp_all add: edit_vacation_sent [OF ed])
  note t1 = C3_vacation_date_range [of example_edit_dashboard ?new ?good]
  note t3 = C3_vacation_date_range [of example_edit_dashboard ?new ?bad]
  have r1: "\<forall>v \<in> set (vacations_sent (snd (Dashboard_handleEditVacation backend_vacations
              example_edit_dashboard ?good))). date_from v \<le> date_to v"
    using t1 a1 by blast
  have r3: "fst (Dashboard_handleEditVacation backend_vacations example_edit_dashboard ?bad)
            = example_edit_dashboard"
    using t3 a3 by blast
  show ?thesis
    using a1 a2 a3 s1 s3 r1 r3 by blast
qed

subsection \<open>Change requests as the client sends them\<close>

text \<open>The calendar's form sends one request to create a change request, with the type
  chosen in the form and no status; the admin page sends one resolution for the selected
  request, with status approved or rejected.\<close>

lemma submit_calls:
  "calls_of (snd (Calendar_handleCreateChangeRequest (Resolved ()) cst values))
     = [CreateChangeRequest
          \<lparr>cr_request_type = f_request_type values,
           cr_time_entry_id = f_time_entry_id values,
           cr_date = (case changeRequestDate cst of Some d \<Rightarrow> d | None \<Rightarrow> selectedDate cst),
           cr_start_time = map_option format_HHmm (f_start_time values),
           cr_end_time = map_option format_HHmm (f_end_time values),
           cr_break_minutes = changeRequest_breakMins (daySummary cst) values,
           cr_workplace = f_workplace values,
           cr_comment = f_comment values,
           cr_reason = f_reason values\<rparr>]"
  by (simp add: Calendar_handleCreateChangeRequest_def Let_def calls_of_def)

lemma resolve_calls:
  "selectedRequest st = Some r \<Longrightarrow>
   calls_of (snd (ChangeRequests_handleResolve api st approved))
     = [ResolveChangeRequest (req_id r)
          \<lparr>res_status = (if approved then Approved else Rejected),
           res_admin_comment = (if adminComment st = [] then None else Some (adminComment st))\<rparr>]"
  by (simp add: ChangeRequests_handleResolve_def Let_def calls_of_def split: api_result.splits)

subsection \<open>Polling and persisted stores\<close>

lemma div_carry: "x div k + (x mod k + y) div k = (x + y) div (k::nat)"
proof (cases "k = 0")
  case True
  then show ?thesis by simp
next
  case False
  have "x + y = (x mod k + y) + (x div k) * k"
    by simp
  then have "(x + y) div k = ((x mod k + y) + (x div k) * k) div k"
    by (rule arg_cong)
  also have "\<dots> = x div k + (x mod k + y) div k"
    using False by (subst div_mult_self1) simp_all
  finally show ?thesis by simp
qed

lemma mod_carry: "(x mod k + y) mod k = (x + y) mod (k::nat)"
  by (simp add: mod_add_left_eq)

lemma bell_elapse:
  "bell_interval s \<Longrightarrow> bell_since s < 60000 \<Longrightarrow>
   foldl bell_step s (map Elapse ts) =
     s\<lparr>bell_since := (bell_since s + sum_list ts) mod 60000,
       bell_fetches := bell_fetches s + (bell_since s + sum_list ts) div 60000\<rparr>"
proof (induction ts arbitrary: s)
  case Nil
  then show ?case by simp
next
  case (Cons t ts)
  let ?s1 = "bell_step s (Elapse t)"
  have i: "bell_interval ?s1" and l: "bell_since ?s1 < 60000"
    using Cons.prems by simp_all
  have s1: "?s1 = s\<lparr>bell_since := (bell_since s + t) mod 60000,
                     bell_fetches := bell_fetches s + (bell_since s + t) div 60000\<rparr>"
    using Cons.prems by simp
  have "foldl bell_step s (map Elapse (t # ts)) = foldl bell_step ?s1 (map Elapse ts)"
    by simp
  also have "\<dots> = ?s1\<lparr>bell_since := (bell_since ?s1 + sum_list ts) mod 60000,
       bell_fetches := bell_fetches ?s1 + (bell_since ?s1 + sum_list ts) div 60000\<rparr>"
    by (rule Cons.IH [OF i l])
  also have "\<dots> = s\<lparr>bell_since := (bell_since s + sum_list (t # ts)) mod 60000,
       bell_fetches := bell_fetches s + (bell_since s + sum_list (t # ts)) div 60000\<rparr>"
    unfolding s1
    by (simp add: mod_carry div_carry add.assoc)
  finally show ?case .
qed

lemma bell_polls:
  "bell_fetches (foldl bell_step bell_initial (Mount # map Elapse ts)) = 1 + sum_list ts div 60000"
  by (simp add: bell_elapse bell_initial_def)

lemma bell_unmounted:
  "bell_fetches (foldl bell_step (bell_step s Unmount) (map Elapse ts)) = bell_fetches s"
  by (induction ts) simp_all

lemma settings_persisted:
  "fetchSettings (Resolved fetched) w
     = ((fst w)\<lparr>s_error := None, settings := spread defaultSettings fetched, s_isLoading := False\<rparr>,
        Some (spread defaultSettings fetched))"
  by (simp add: fetchSettings_def settings_set_def Let_def)

lemma settings_restored:
  "fst (settings_create (snd (fetchSettings (Resolved fetched) w)))
     = settings_initial\<lparr>settings := spread defaultSettings fetched\<rparr>"
  by (simp add: settings_persisted settings_create_def)

lemma settings_saved:
  "snd (settings_set change w) = Some (settings (fst (settings_set change w)))"
  "snd (fetchSettings outcome w) = Some (settings (fst (fetchSettings outcome w)))"
  "snd (updateSettings newSettings w) = Some (settings (fst (updateSettings newSettings w)))"
  by (simp_all add: settings_set_def fetchSettings_def updateSettings_def Let_def
      split: api_result.splits)

lemma auth_saved:
  "auth_partialize (login_set_result (LoginOk u tok rtok) s) = (Some u, True)"
  "auth_partialize (checkAuth_set_result (MeOk u left) s) = (Some u, True)"
  "auth_rehydrate (auth_partialize s)
     = auth_initial\<lparr>user := user s, isAuthenticated := isAuthenticated s\<rparr>"
  by (simp_all add: auth_partialize_def auth_rehydrate_def login_set_result_def
      checkAuth_set_result_def)

text \<open>C9, as the code has it. While mounted, the notification bell fetches once at mount and
  once more for every 60000 ms that have passed, and not at all after it is unmounted. The
  settings store saves its settings in local storage whenever it sets its state, as
  \<^verbatim>\<open>fetchSettings\<close> and \<^verbatim>\<open>updateSettings\<close> do; after a successful fetch these are the
  defaults overlaid with the fetched company settings; a store created later starts from
  the saved settings, or from the defaults when nothing is saved. The auth store saves the
  user record and the flag \<open>isAuthenticated\<close> of its state: after a successful login or
  check these are the user record that the server returned and true, and a store created
  later starts from the saved pair.\<close>

theorem C9_polling_and_persistence:
  "bell_fetches (foldl bell_step bell_initial (Mount # map Elapse ts)) = 1 + sum_list ts div 60000
   \<and> bell_fetches (foldl bell_step (bell_step s Unmount) (map Elapse ts)) = bell_fetches s
   \<and> snd (fetchSettings outcome w) = Some (settings (fst (fetchSettings outcome w)))
   \<and> snd (updateSettings newSettings w) = Some (settings (fst (updateSettings newSettings w)))
   \<and> snd (fetchSettings (Resolved fetched) w) = Some (spread defaultSettings fetched)
   \<and> fst (settings_create (Some saved)) = settings_initial\<lparr>settings := saved\<rparr>
   \<and> settings_create None = (settings_initial, None)
   \<and> auth_partialize (login_set_result (LoginOk u tok rtok) a) = (Some u, True)
   \<and> auth_partialize (checkAuth_set_result (MeOk u left) a) = (Some u, True)
   \<and> auth_rehydrate (auth_partialize a)
       = auth_initial\<lparr>user := user a, isAuthenticated := isAuthenticated a\<rparr>
   \<and> snd (settings_set change w) = Some (settings (fst (settings_set change w)))"
proof -
  have "snd (fetchSettings (Resolved fetched) w) = Some (spread defaultSettings fetched)"
    by (simp add: settings_persisted)
  moreover have "settings_create None = (settings_initial, None)"
    and "fst (settings_create (Some saved)) = settings_initial\<lparr>settings := saved\<rparr>"
    by (simp_all add: settings_create_def)
  ultimately show ?thesis
    using bell_polls [of ts] bell_unmounted [of s ts] settings_saved(2) [of outcome w]
      settings_saved(3) [of newSettings w] auth_saved(1) [of u tok rtok a]
      auth_saved(2) [of u left a] auth_saved(3) [of a] settings_saved(1) [of change w]
    by blast
qed

theorem C9_polling_and_persistence_witness:
  "bell_fetches (foldl bell_step bell_initial (Mount # map Elapse [30000, 45000, 50000])) = 3
   \<and> snd (fetchSettings (Resolved company_settings) (settings_initial, None))
       = Some (defaultSettings\<lparr>logo_url := Some ''/uploads/logo.svg'', icon_vacation := ''Sun''\<rparr>)
   \<and> user (auth_rehydrate (auth_partialize
         (login_set_result (LoginOk example_user ''t1'' ''t2'') auth_initial))) = Some example_user"
proof -
  note t = C9_polling_and_persistence [of "[30000, 45000, 50000]" bell_initial
      "Resolved company_settings" "(settings_initial, None)" company_settings company_settings
      defaultSettings example_user "''t1''" "''t2''" auth_initial
      "\<lparr>access_token = None, refresh_token = None\<rparr>"]
  note t' = C9_polling_and_persistence [of "[30000, 45000, 50000]" bell_initial
      "Resolved company_settings" "(settings_initial, None)" company_settings company_settings
      defaultSettings example_user "''t1''" "''t2''"
      "login_set_result (LoginOk example_user ''t1'' ''t2'') auth_initial"
      "\<lparr>access_token = None, refresh_token = None\<rparr>"]
  have a: "bell_fetches (foldl bell_step bell_initial (Mount # map Elapse [30000, 45000, 50000]))
           = 1 + sum_list [30000, 45000, 50000] div 60000"
    using t by blast
  have b: "snd (fetchSettings (Resolved company_settings) (settings_initial, None))
           = Some (spread defaultSettings company_settings)"
    using t by blast
  have c: "spread defaultSettings company_settings
           = defaultSettings\<lparr>logo_url := Some ''/uploads/logo.svg'', icon_vacation := ''Sun''\<rparr>"
    by (simp add: spread_def company_settings_def defaultSettings_def)
  have d: "auth_partialize (login_set_result (LoginOk example_user ''t1'' ''t2'') auth_initial)
           = (Some example_user, True)"
    using t by blast
  have e0: "auth_rehydrate (auth_partialize
         (login_set_result (LoginOk example_user ''t1'' ''t2'') auth_initial))
       = auth_initial
           \<lparr>user := user (login_set_result (LoginOk example_user ''t1'' ''t2'') auth_initial),
            isAuthenticated :=
              isAuthenticated (login_set_result (LoginOk example_user ''t1'' ''t2'') auth_initial)\<rparr>"
    using t' by blast
  have e: "user (auth_rehydrate (auth_partialize
         (login_set_result (LoginOk example_user ''t1'' ''t2'') auth_initial))) = Some example_user"
    unfolding e0 by (simp add: login_set_result_def)
  show ?thesis
    unfolding a b c using e by simp
qed

text \<open>C9 as written fails twice: with the bell mounted and two minutes gone, the client
  has fetched the notifications three times without any action of the user; and after the
  company settings were fetched once, a store created on a later page load holds the
  server's logo and icon, read from local storage.\<close>

theorem C9_counterexample:
  "bell_fetches (foldl bell_step bell_initial [Mount, Elapse 60000, Elapse 60000]) = 3
   \<and> settings (fst (settings_create
         (snd (fetchSettings (Resolved company_settings) (settings_initial, None)))))
       = defaultSettings\<lparr>logo_url := Some ''/uploads/logo.svg'', icon_vacation := ''Sun''\<rparr>"
  by (simp add: bell_initial_def settings_persisted settings_create_def spread_def
      company_settings_def defaultSettings_def)

end
